theory Spec2Isabelle
  imports Main
begin

section \<open>JavaScript values\<close>

text \<open>
  Every payload of the program is untyped JSON (\<^verbatim>\<open>any\<close> in the TypeScript). A value read
  from a parsed body is a \<open>json\<close>; a property read may also give \<^verbatim>\<open>undefined\<close>, which is
  \<open>None\<close> of \<open>jsval\<close>. The program never computes with a JSON number: it passes it on,
  tests it with \<^verbatim>\<open>||\<close> or turns it into text. A number is therefore held as the text
  that \<^verbatim>\<open>String\<close> gives for it (\<^verbatim>\<open>0\<close>, \<^verbatim>\<open>42\<close>, \<^verbatim>\<open>1.5\<close>, \<^verbatim>\<open>1e+21\<close>), which is one text
  for each number; the only falsy numbers are \<^verbatim>\<open>0\<close> and \<^verbatim>\<open>-0\<close>, both with the text \<^verbatim>\<open>0\<close>.
  An object is an association list with distinct keys.
\<close>

datatype json =
    JNull
  | JBool bool
  | JNum string
  | JStr string
  | JArr "json list"
  | JObj "(string \<times> json) list"

type_synonym jsval = "json option"

text \<open>Truthiness, as tested by \<^verbatim>\<open>||\<close> and \<^verbatim>\<open>!\<close>.\<close>

fun truthy :: "jsval \<Rightarrow> bool" where
  "truthy None = False"
| "truthy (Some JNull) = False"
| "truthy (Some (JBool b)) = b"
| "truthy (Some (JNum t)) = (t \<noteq> ''0'')"
| "truthy (Some (JStr s)) = (s \<noteq> [])"
| "truthy (Some (JArr xs)) = True"
| "truthy (Some (JObj kvs)) = True"

text \<open>\<^verbatim>\<open>a || b\<close>\<close>

definition js_or :: "jsval \<Rightarrow> jsval \<Rightarrow> jsval" where
  "js_or a b = (if truthy a then a else b)"

subsection \<open>Thrown values\<close>

datatype js_class = PlainError | TypeError | SyntaxError | ApiError

text \<open>
  A thrown value is an instance of \<^verbatim>\<open>Error\<close> (of one of the classes above, with its message
  and, where the code sets one, a \<^verbatim>\<open>status\<close> property) or some other value that is not an
  \<^verbatim>\<open>Error\<close> at all, a string say. Nothing here throws \<^verbatim>\<open>null\<close> or \<^verbatim>\<open>undefined\<close>, and
  \<^verbatim>\<open>fetch\<close> rejects with neither.
\<close>

datatype thrown =
    Exn (err_class: js_class) (err_message: string) (err_status: "nat option")
  | NonError

text \<open>\<^verbatim>\<open>error instanceof Error ? error.message : d\<close>\<close>

fun message_or :: "thrown \<Rightarrow> string \<Rightarrow> string" where
  "message_or (Exn c m s) d = m"
| "message_or NonError d = d"

text \<open>\<^verbatim>\<open>error instanceof ApiError\<close>\<close>

fun instanceof_ApiError :: "thrown \<Rightarrow> bool" where
  "instanceof_ApiError (Exn c m s) = (c = ApiError)"
| "instanceof_ApiError NonError = False"

subsection \<open>Property reads\<close>

definition quote :: string where
  "quote = [char_of (39::nat)]"

text \<open>The \<^verbatim>\<open>TypeError\<close> of a property read on \<^verbatim>\<open>undefined\<close> or \<^verbatim>\<open>null\<close> (V8's wording).\<close>

definition nullish_read :: "string \<Rightarrow> string \<Rightarrow> thrown" where
  "nullish_read what p =
     Exn TypeError (''Cannot read properties of '' @ what @ '' (reading '' @ quote @ p @ quote @ '')'') None"

text \<open>\<^verbatim>\<open>v.p\<close>: throws on \<^verbatim>\<open>undefined\<close> and \<^verbatim>\<open>null\<close>, is \<^verbatim>\<open>undefined\<close> on a value without \<open>p\<close>.\<close>

fun get_prop :: "jsval \<Rightarrow> string \<Rightarrow> thrown + jsval" where
  "get_prop None p = Inl (nullish_read ''undefined'' p)"
| "get_prop (Some JNull) p = Inl (nullish_read ''null'' p)"
| "get_prop (Some (JObj kvs)) p = Inr (map_of kvs p)"
| "get_prop (Some v) p = Inr None"

text \<open>\<^verbatim>\<open>v?.p\<close>\<close>

fun opt_prop :: "jsval \<Rightarrow> string \<Rightarrow> jsval" where
  "opt_prop None p = None"
| "opt_prop (Some JNull) p = None"
| "opt_prop (Some (JObj kvs)) p = map_of kvs p"
| "opt_prop (Some v) p = None"

subsection \<open>Conversion to strings\<close>

definition digit :: "nat \<Rightarrow> char" where
  "digit d = ''0123456789'' ! d"

fun show_nat :: "nat \<Rightarrow> string" where
  "show_nat n = (if n < 10 then [digit n] else show_nat (n div 10) @ [digit (n mod 10)])"

declare show_nat.simps [simp del]

fun join :: "string \<Rightarrow> string list \<Rightarrow> string" where
  "join sep [] = []"
| "join sep [x] = x"
| "join sep (x # y # ys) = x @ sep @ join sep (y # ys)"

text \<open>
  \<^verbatim>\<open>String(v)\<close>, as a template literal and the \<^verbatim>\<open>Error\<close> constructor apply it. It can
  throw. An object of a parsed body has no callable property of its own, so one with an
  own key \<^verbatim>\<open>toString\<close> hides \<^verbatim>\<open>Object.prototype.toString\<close> by something that cannot be
  called, \<^verbatim>\<open>valueOf\<close> gives no primitive either, and the conversion throws a
  \<^verbatim>\<open>TypeError\<close>; any other object is \<^verbatim>\<open>[object Object]\<close>. An array joins the texts of
  its elements with commas, \<^verbatim>\<open>null\<close> elements as the empty string, and throws when the
  conversion of an element throws.
\<close>

definition cannot_convert :: thrown where
  "cannot_convert = Exn TypeError ''Cannot convert object to primitive value'' None"

fun to_string :: "json \<Rightarrow> thrown + string"
  and elements :: "json list \<Rightarrow> thrown + string list" where
  "to_string JNull = Inr ''null''"
| "to_string (JBool b) = Inr (if b then ''true'' else ''false'')"
| "to_string (JNum t) = Inr t"
| "to_string (JStr s) = Inr s"
| "to_string (JArr xs) =
     (case elements xs of Inl e \<Rightarrow> Inl e | Inr ss \<Rightarrow> Inr (join '','' ss))"
| "to_string (JObj kvs) =
     (if map_of kvs ''toString'' \<noteq> None then Inl cannot_convert else Inr ''[object Object]'')"
| "elements [] = Inr []"
| "elements (x # xs) =
     (case (if x = JNull then Inr [] else to_string x) of
        Inl e \<Rightarrow> Inl e
      | Inr s \<Rightarrow> (case elements xs of Inl e \<Rightarrow> Inl e | Inr ss \<Rightarrow> Inr (s # ss)))"

fun js_string :: "jsval \<Rightarrow> thrown + string" where
  "js_string None = Inr ''undefined''"
| "js_string (Some v) = to_string v"

text \<open>
  \<^verbatim>\<open>new Error(message)\<close>: without a message (\<^verbatim>\<open>undefined\<close>) the error's message is the empty
  string; any other message is converted, and the constructor throws if that throws.
\<close>

definition new_Error :: "jsval \<Rightarrow> thrown + thrown" where
  "new_Error message =
     (case message of
        None \<Rightarrow> Inr (Exn PlainError [] None)
      | Some v \<Rightarrow> (case to_string v of Inl e \<Rightarrow> Inl e | Inr s \<Rightarrow> Inr (Exn PlainError s None)))"

text \<open>\<^verbatim>\<open>toLowerCase\<close> on the ASCII letters, which is all the program applies it to.\<close>

definition lower_char :: "char \<Rightarrow> char" where
  "lower_char c =
     (case map_of (zip ''ABCDEFGHIJKLMNOPQRSTUVWXYZ'' ''abcdefghijklmnopqrstuvwxyz'') c of
        Some l \<Rightarrow> l
      | None \<Rightarrow> c)"

definition toLowerCase :: "string \<Rightarrow> string" where
  "toLowerCase s = map lower_char s"

section \<open>The network\<close>

text \<open>
  What \<^verbatim>\<open>fetch\<close> gives back: it rejects (no HTTP response at all), or it resolves with a
  response. The body of a response either parses as JSON or makes \<^verbatim>\<open>JSON.parse\<close> and
  \<^verbatim>\<open>response.json()\<close> fail with a \<^verbatim>\<open>SyntaxError\<close> of the given message.
\<close>

record http_response =
  resp_status :: nat
  resp_statusText :: string
  resp_body :: "string + json"

datatype reply = Rejected thrown | Responded http_response

text \<open>\<^verbatim>\<open>response.ok\<close>\<close>

definition ok :: "http_response \<Rightarrow> bool" where
  "ok r = (200 \<le> resp_status r \<and> resp_status r \<le> 299)"

text \<open>\<^verbatim>\<open>response.json()\<close> and \<^verbatim>\<open>JSON.parse(await response.text())\<close>\<close>

definition parse_body :: "http_response \<Rightarrow> thrown + json" where
  "parse_body r = (case resp_body r of Inl m \<Rightarrow> Inl (Exn SyntaxError m None) | Inr j \<Rightarrow> Inr j)"

text \<open>\<^verbatim>\<open>`HTTP ${response.status}: ${response.statusText}`\<close>\<close>

definition http_line :: "http_response \<Rightarrow> string" where
  "http_line r = ''HTTP '' @ show_nat (resp_status r) @ '': '' @ resp_statusText r"

text \<open>
  The value of \<^verbatim>\<open>errorMessage\<close> in \<^verbatim>\<open>ApifyClient.makeRequest\<close> and in the server's
  \<^verbatim>\<open>makeApifyRequest\<close> when the \<^verbatim>\<open>try\<close> around the parse has been left: the body is parsed
  inside a \<^verbatim>\<open>try\<close> whose \<^verbatim>\<open>catch\<close> keeps the default message, so a body that does not
  parse, and a body that is \<^verbatim>\<open>null\<close> (the read of \<^verbatim>\<open>.error\<close> throws), both leave the
  default. The value need not be a string.
\<close>

definition errorMessage_of :: "http_response \<Rightarrow> jsval" where
  "errorMessage_of r =
     (let errorMessage = Some (JStr (http_line r)) in
      case parse_body r of
        Inl e \<Rightarrow> errorMessage
      | Inr errorData \<Rightarrow>
          (case get_prop (Some errorData) ''error'' of
             Inl e \<Rightarrow> errorMessage
           | Inr err \<Rightarrow> js_or (opt_prop err ''message'') errorMessage))"

text \<open>
  \<^verbatim>\<open>ApifyClient.makeRequest\<close> (the client that talks to the platform directly).
  \<^verbatim>\<open>throw new Error(errorMessage)\<close> stands after the \<^verbatim>\<open>try\<close>: what the constructor
  throws leaves \<^verbatim>\<open>makeRequest\<close> as it is.
\<close>

definition makeRequest :: "reply \<Rightarrow> thrown + json" where
  "makeRequest rp =
     (case rp of
        Rejected e \<Rightarrow> Inl e
      | Responded response \<Rightarrow>
          if \<not> ok response then
            (case new_Error (errorMessage_of response) of
               Inl e \<Rightarrow> Inl e
             | Inr error \<Rightarrow> Inl error)
          else parse_body response)"

text \<open>
  The server's \<^verbatim>\<open>makeApifyRequest\<close>: the same, and \<^verbatim>\<open>error.status = response.status\<close>
  is set on the error once it has been constructed.
\<close>

fun with_status :: "thrown \<Rightarrow> nat \<Rightarrow> thrown" where
  "with_status (Exn c m s) st = Exn c m (Some st)"
| "with_status NonError st = NonError"

definition makeApifyRequest :: "reply \<Rightarrow> thrown + json" where
  "makeApifyRequest rp =
     (case rp of
        Rejected e \<Rightarrow> Inl e
      | Responded response \<Rightarrow>
          if \<not> ok response then
            (case new_Error (errorMessage_of response) of
               Inl e \<Rightarrow> Inl e
             | Inr error \<Rightarrow>
                 Inl (with_status error (resp_status response)))
          else parse_body response)"

text \<open>
  The \<^verbatim>\<open>catch\<close> block of the frontend's \<^verbatim>\<open>ApiClient.makeRequest\<close>: an \<^verbatim>\<open>ApiError\<close> is
  rethrown, anything else becomes an \<^verbatim>\<open>ApiError\<close> of status 0.
\<close>

definition ApiClient_catch :: "thrown \<Rightarrow> thrown" where
  "ApiClient_catch error =
     (if instanceof_ApiError error then error
      else Exn ApiError (message_or error ''Network error occurred'') (Some 0))"

text \<open>
  \<^verbatim>\<open>new ApiError(message, status)\<close>: \<^verbatim>\<open>super(message)\<close> is the constructor of \<^verbatim>\<open>Error\<close>, which
  converts the message and throws if that throws.
\<close>

definition new_ApiError :: "jsval \<Rightarrow> nat \<Rightarrow> thrown + thrown" where
  "new_ApiError message st =
     (case message of
        None \<Rightarrow> Inr (Exn ApiError [] (Some st))
      | Some v \<Rightarrow> (case to_string v of Inl e \<Rightarrow> Inl e | Inr s \<Rightarrow> Inr (Exn ApiError s (Some st))))"

text \<open>
  The frontend's \<^verbatim>\<open>ApiClient.makeRequest\<close>. Inside the \<^verbatim>\<open>try\<close> are the awaited
  \<^verbatim>\<open>fetch\<close>, the awaited \<^verbatim>\<open>response.json().catch(() => ({}))\<close>, the read of
  \<^verbatim>\<open>errorData.error?.message\<close> and the construction of the \<^verbatim>\<open>ApiError\<close>. The last
  statement of the \<^verbatim>\<open>try\<close> is \<^verbatim>\<open>return response.json()\<close> with no \<^verbatim>\<open>await\<close>: the async
  function resolves with that promise, and a rejection of it happens after the \<^verbatim>\<open>try\<close>
  block has been left, so the \<^verbatim>\<open>catch\<close> never sees it.
\<close>

definition ApiClient_makeRequest :: "reply \<Rightarrow> thrown + json" where
  "ApiClient_makeRequest rp =
     (case rp of
        Rejected e \<Rightarrow> Inl (ApiClient_catch e)
      | Responded response \<Rightarrow>
          if \<not> ok response then
            (let errorData = (case parse_body response of Inl e \<Rightarrow> JObj [] | Inr j \<Rightarrow> j) in
             case get_prop (Some errorData) ''error'' of
               Inl e \<Rightarrow> Inl (ApiClient_catch e)
             | Inr err \<Rightarrow>
                 (let errorMessage = js_or (opt_prop err ''message'') (Some (JStr (http_line response))) in
                  case new_ApiError errorMessage (resp_status response) of
                    Inl e \<Rightarrow> Inl (ApiClient_catch e)
                  | Inr error \<Rightarrow> Inl (ApiClient_catch error)))
          else parse_body response)"

section \<open>The Apify client\<close>

text \<open>
  Each method of \<^verbatim>\<open>ApifyClient\<close> that sends one request is a function of the reply the
  platform gives to that request. The \<^verbatim>\<open>catch\<close> blocks prepend their context to the
  message of whatever was thrown inside the \<^verbatim>\<open>try\<close>.
\<close>

definition rethrow :: "string \<Rightarrow> thrown \<Rightarrow> thrown" where
  "rethrow context error = Exn PlainError (context @ message_or error ''Unknown error'') None"

subsection \<open>Listing\<close>

record ActorSummary =
  actor_id :: jsval
  actor_name :: jsval
  actor_title :: jsval
  actor_description :: jsval
  actor_stats :: jsval

text \<open>The arrow function mapped over the items. Reading \<^verbatim>\<open>actor.id\<close> throws on \<^verbatim>\<open>null\<close>.\<close>

definition toSummary :: "json \<Rightarrow> thrown + ActorSummary" where
  "toSummary actor =
     (case get_prop (Some actor) ''id'' of
        Inl e \<Rightarrow> Inl e
      | Inr i \<Rightarrow>
          Inr \<lparr> actor_id = i,
                actor_name = opt_prop (Some actor) ''name'',
                actor_title = js_or (opt_prop (Some actor) ''title'') (opt_prop (Some actor) ''name''),
                actor_description =
                  js_or (opt_prop (Some actor) ''description'') (Some (JStr ''No description available'')),
                actor_stats =
                  js_or (opt_prop (Some actor) ''stats'') (Some (JObj [(''totalRuns'', JNum ''0'')])) \<rparr>)"

fun map_throw :: "('a \<Rightarrow> thrown + 'b) \<Rightarrow> 'a list \<Rightarrow> thrown + 'b list" where
  "map_throw f [] = Inr []"
| "map_throw f (x # xs) =
     (case f x of
        Inl e \<Rightarrow> Inl e
      | Inr y \<Rightarrow> (case map_throw f xs of Inl e \<Rightarrow> Inl e | Inr ys \<Rightarrow> Inr (y # ys)))"

text \<open>\<^verbatim>\<open>response.data.items.map(...)\<close>: only an array has \<^verbatim>\<open>map\<close>.\<close>

fun items_map :: "jsval \<Rightarrow> thrown + ActorSummary list" where
  "items_map None = Inl (nullish_read ''undefined'' ''map'')"
| "items_map (Some JNull) = Inl (nullish_read ''null'' ''map'')"
| "items_map (Some (JArr xs)) = map_throw toSummary xs"
| "items_map (Some v) = Inl (Exn TypeError ''response.data.items.map is not a function'' None)"

definition getActors_try :: "reply \<Rightarrow> thrown + ActorSummary list" where
  "getActors_try rp =
     (case makeRequest rp of
        Inl e \<Rightarrow> Inl e
      | Inr response \<Rightarrow>
          (case get_prop (Some response) ''data'' of
             Inl e \<Rightarrow> Inl e
           | Inr d \<Rightarrow>
               (case get_prop d ''items'' of
                  Inl e \<Rightarrow> Inl e
                | Inr items \<Rightarrow> items_map items)))"

definition getActors :: "reply \<Rightarrow> thrown + ActorSummary list" where
  "getActors rp =
     (case getActors_try rp of
        Inl error \<Rightarrow> Inl (rethrow ''Failed to fetch actors: '' error)
      | Inr actors \<Rightarrow> Inr actors)"

subsection \<open>Schema\<close>

definition getActorSchema_try :: "reply \<Rightarrow> thrown + jsval" where
  "getActorSchema_try rp =
     (case makeRequest rp of
        Inl e \<Rightarrow> Inl e
      | Inr response \<Rightarrow>
          (case get_prop (Some response) ''data'' of
             Inl e \<Rightarrow> Inl e
           | Inr d \<Rightarrow>
               (case get_prop d ''defaultRunOptions'' of
                  Inl e \<Rightarrow> Inl e
                | Inr opts \<Rightarrow>
                    (let inputSchema = opt_prop opts ''inputSchema'' in
                     if \<not> truthy inputSchema
                     then Inl (Exn PlainError ''No input schema found for this actor'' None)
                     else Inr inputSchema))))"

definition getActorSchema :: "reply \<Rightarrow> thrown + jsval" where
  "getActorSchema rp =
     (case getActorSchema_try rp of
        Inl error \<Rightarrow> Inl (rethrow ''Failed to fetch actor schema: '' error)
      | Inr inputSchema \<Rightarrow> Inr inputSchema)"

section \<open>The world of a poll loop\<close>

text \<open>
  A poll loop reads the clock, sends requests and sleeps. The remote side is a script:
  the reply to a request depends on its endpoint and on how many requests that endpoint
  has had before, each request takes some time, and a timer fires no earlier than asked.
  The world holds the clock (milliseconds, as \<^verbatim>\<open>Date.now()\<close> reads it), the number of
  requests each endpoint has had, the number of timers set, and a log of the start time
  and endpoint of every request.
\<close>

record remote =
  get_reply :: "string \<Rightarrow> nat \<Rightarrow> reply"
  took_ms :: "string \<Rightarrow> nat \<Rightarrow> nat"
  late_ms :: "nat \<Rightarrow> nat"

record world =
  now :: int
  asked :: "string \<Rightarrow> nat"
  timers :: nat
  log :: "(int \<times> string) list"

definition boot :: "int \<Rightarrow> world" where
  "boot t = \<lparr> now = t, asked = (\<lambda>endpoint. 0), timers = 0, log = [] \<rparr>"

definition request :: "remote \<Rightarrow> string \<Rightarrow> world \<Rightarrow> reply \<times> world" where
  "request R endpoint w =
     (get_reply R endpoint (asked w endpoint),
      w\<lparr> now := now w + int (took_ms R endpoint (asked w endpoint)),
         asked := (asked w)(endpoint := Suc (asked w endpoint)),
         log := log w @ [(now w, endpoint)] \<rparr>)"

text \<open>\<^verbatim>\<open>await new Promise(resolve => setTimeout(resolve, ms))\<close>\<close>

definition sleep :: "remote \<Rightarrow> nat \<Rightarrow> world \<Rightarrow> world" where
  "sleep R ms w =
     w\<lparr> now := now w + int ms + int (late_ms R (timers w)), timers := Suc (timers w) \<rparr>"

definition pollInterval :: nat where
  "pollInterval = 2000"

definition run_endpoint :: "string \<Rightarrow> string" where
  "run_endpoint runId = ''/actor-runs/'' @ runId"

text \<open>\<^verbatim>\<open>`/datasets/${datasetId}/items?format=json`\<close>, which throws if the conversion throws.\<close>

definition dataset_endpoint :: "jsval \<Rightarrow> thrown + string" where
  "dataset_endpoint datasetId =
     (case js_string datasetId of
        Inl e \<Rightarrow> Inl e
      | Inr s \<Rightarrow> Inr (''/datasets/'' @ s @ ''/items?format=json''))"

text \<open>The object a loop returns: \<^verbatim>\<open>{status, finishedAt, stats, dataset, run}\<close>.\<close>

record RunOutcome =
  out_status :: jsval
  out_finishedAt :: jsval
  out_stats :: jsval
  out_dataset :: json
  out_run :: jsval

text \<open>
  What the loops throw for a run that ended badly:
  \<^verbatim>\<open>new Error(`Actor run ${run.status.toLowerCase()}: ${run.statusMessage || 'No error message available'}`)\<close>.
  The template literal converts the message, and what that conversion throws is thrown
  in place of the error.
\<close>

text \<open>The string in \<^verbatim>\<open>run.status\<close>, once \<^verbatim>\<open>===\<close> has found it equal to a string.\<close>

fun string_of :: "jsval \<Rightarrow> string" where
  "string_of (Some (JStr s)) = s"
| "string_of v = []"

definition run_failed :: "string \<Rightarrow> jsval \<Rightarrow> thrown" where
  "run_failed st statusMessage =
     (case js_string (js_or statusMessage (Some (JStr ''No error message available''))) of
        Inl e \<Rightarrow> e
      | Inr s \<Rightarrow> Exn PlainError (''Actor run '' @ toLowerCase st @ '': '' @ s) None)"

subsection \<open>The client's loop\<close>

definition getRun :: "remote \<Rightarrow> string \<Rightarrow> world \<Rightarrow> (thrown + jsval) \<times> world" where
  "getRun R runId w =
     (let (rp, w1) = request R (run_endpoint runId) w in
      case makeRequest rp of
        Inl error \<Rightarrow> (Inl (rethrow ''Failed to fetch run details: '' error), w1)
      | Inr response \<Rightarrow>
          (case get_prop (Some response) ''data'' of
             Inl error \<Rightarrow> (Inl (rethrow ''Failed to fetch run details: '' error), w1)
           | Inr d \<Rightarrow> (Inr d, w1)))"

text \<open>
  \<^verbatim>\<open>getRunDataset\<close> fetches the run again by its id and reads the dataset id off that
  second record. Whatever is thrown inside its \<^verbatim>\<open>try\<close> is logged and replaced by \<^verbatim>\<open>[]\<close>.
\<close>

definition getRunDataset_try :: "remote \<Rightarrow> string \<Rightarrow> world \<Rightarrow> (thrown + json) \<times> world" where
  "getRunDataset_try R runId w =
     (case getRun R runId w of
        (Inl error, w1) \<Rightarrow> (Inl error, w1)
      | (Inr r, w1) \<Rightarrow>
          (case get_prop r ''defaultDatasetId'' of
             Inl error \<Rightarrow> (Inl error, w1)
           | Inr datasetId \<Rightarrow>
               if \<not> truthy datasetId then (Inr (JArr []), w1)
               else
                 (case dataset_endpoint datasetId of
                    Inl error \<Rightarrow> (Inl error, w1)
                  | Inr endpoint \<Rightarrow>
                      (let (rp, w2) = request R endpoint w1 in (makeRequest rp, w2)))))"

definition getRunDataset :: "remote \<Rightarrow> string \<Rightarrow> world \<Rightarrow> json \<times> world" where
  "getRunDataset R runId w =
     (case getRunDataset_try R runId w of
        (Inl error, w1) \<Rightarrow> (JArr [], w1)
      | (Inr response, w1) \<Rightarrow> (response, w1))"

lemma request_now:
  "request R endpoint w = (rp, w1) \<Longrightarrow> now w1 = now w + int (took_ms R endpoint (asked w endpoint))"
  by (auto simp: request_def)

lemma getRun_now:
  "getRun R runId w = (r, w1) \<Longrightarrow>
   now w1 = now w + int (took_ms R (run_endpoint runId) (asked w (run_endpoint runId)))"
  by (auto simp: getRun_def request_def split: sum.splits)

lemma sleep_now: "now (sleep R ms w) = now w + int ms + int (late_ms R (timers w))"
  by (simp add: sleep_def)

definition timeout_error :: thrown where
  "timeout_error = Exn PlainError ''Actor run timed out - taking longer than expected'' None"

text \<open>
  The \<^verbatim>\<open>while\<close> loop of \<^verbatim>\<open>waitForRun\<close>. Once \<^verbatim>\<open>run.status\<close> has been read without a
  throw, \<open>r\<close> is neither \<^verbatim>\<open>undefined\<close> nor \<^verbatim>\<open>null\<close>, and the later reads of its properties
  cannot throw.
\<close>

function waitForRun_loop ::
  "remote \<Rightarrow> string \<Rightarrow> int \<Rightarrow> int \<Rightarrow> world \<Rightarrow> (thrown + RunOutcome) \<times> world" where
  "waitForRun_loop R runId maxWaitTime startTime w =
     (if now w - startTime < maxWaitTime then
        (case getRun R runId w of
           (Inl error, w1) \<Rightarrow> (Inl error, w1)
         | (Inr r, w1) \<Rightarrow>
             (case get_prop r ''status'' of
                Inl error \<Rightarrow> (Inl error, w1)
              | Inr st \<Rightarrow>
                  if st = Some (JStr ''SUCCEEDED'') then
                    (let (ds, w2) = getRunDataset R runId w1 in
                     (Inr \<lparr> out_status = st,
                            out_finishedAt = opt_prop r ''finishedAt'',
                            out_stats = opt_prop r ''stats'',
                            out_dataset = ds,
                            out_run = r \<rparr>, w2))
                  else if st = Some (JStr ''FAILED'') \<or> st = Some (JStr ''ABORTED'')
                          \<or> st = Some (JStr ''TIMED-OUT'') then
                    (Inl (run_failed (string_of st) (opt_prop r ''statusMessage'')), w1)
                  else waitForRun_loop R runId maxWaitTime startTime (sleep R pollInterval w1)))
      else (Inl timeout_error, w))"
  by pat_completeness auto
termination
proof (relation "measure (\<lambda>(R, runId, maxWaitTime, startTime, w). nat (startTime + maxWaitTime - now w))",
    goal_cases)
  case 1
  show ?case by simp
next
  case (2 R runId maxWaitTime startTime w x y b ba)
  then show ?case
    using getRun_now [of R runId w x y]
    by (simp add: sleep_now pollInterval_def)
qed

declare waitForRun_loop.simps [simp del]

text \<open>\<^verbatim>\<open>waitForRun(runId, maxWaitTime = 300000)\<close>: the start time is read on entry.\<close>

definition waitForRun :: "remote \<Rightarrow> string \<Rightarrow> int \<Rightarrow> world \<Rightarrow> (thrown + RunOutcome) \<times> world" where
  "waitForRun R runId maxWaitTime w = waitForRun_loop R runId maxWaitTime (now w) w"

subsection \<open>The server's loop\<close>

definition server_maxWaitTime :: int where
  "server_maxWaitTime = 300000"

definition server_timeout_error :: thrown where
  "server_timeout_error = Exn PlainError ''Run timed out - taking longer than expected'' None"

text \<open>The \<^verbatim>\<open>try\<close> block that fills \<^verbatim>\<open>dataset\<close> in \<^verbatim>\<open>pollRun\<close>, and its \<^verbatim>\<open>catch\<close>.\<close>

definition pollRun_dataset_try :: "remote \<Rightarrow> jsval \<Rightarrow> world \<Rightarrow> (thrown + json) \<times> world" where
  "pollRun_dataset_try R r w =
     (case get_prop r ''defaultDatasetId'' of
        Inl error \<Rightarrow> (Inl error, w)
      | Inr datasetId \<Rightarrow>
          if truthy datasetId then
            (case dataset_endpoint datasetId of
               Inl error \<Rightarrow> (Inl error, w)
             | Inr endpoint \<Rightarrow>
                 (let (rp, w1) = request R endpoint w in (makeApifyRequest rp, w1)))
          else (Inr (JArr []), w))"

definition pollRun_dataset :: "remote \<Rightarrow> jsval \<Rightarrow> world \<Rightarrow> json \<times> world" where
  "pollRun_dataset R r w =
     (case pollRun_dataset_try R r w of
        (Inl error, w1) \<Rightarrow> (JArr [], w1)
      | (Inr datasetResponse, w1) \<Rightarrow> (datasetResponse, w1))"

text \<open>\<^verbatim>\<open>pollRun\<close> of the route \<^verbatim>\<open>/runs/:runId/wait\<close>, which calls itself after each sleep.\<close>

function pollRun :: "remote \<Rightarrow> string \<Rightarrow> int \<Rightarrow> world \<Rightarrow> (thrown + RunOutcome) \<times> world" where
  "pollRun R runId startTime w =
     (if now w - startTime > server_maxWaitTime then (Inl server_timeout_error, w)
      else
        (let (rp, w1) = request R (run_endpoint runId) w in
         case makeApifyRequest rp of
           Inl error \<Rightarrow> (Inl error, w1)
         | Inr runResponse \<Rightarrow>
             (case get_prop (Some runResponse) ''data'' of
                Inl error \<Rightarrow> (Inl error, w1)
              | Inr r \<Rightarrow>
                  (case get_prop r ''status'' of
                     Inl error \<Rightarrow> (Inl error, w1)
                   | Inr st \<Rightarrow>
                       if st = Some (JStr ''SUCCEEDED'') then
                         (let (ds, w2) = pollRun_dataset R r w1 in
                          (Inr \<lparr> out_status = st,
                                 out_finishedAt = opt_prop r ''finishedAt'',
                                 out_stats = opt_prop r ''stats'',
                                 out_dataset = ds,
                                 out_run = r \<rparr>, w2))
                       else if st \<in> set [Some (JStr ''FAILED''), Some (JStr ''ABORTED''),
                                          Some (JStr ''TIMED-OUT'')] then
                         (Inl (run_failed (string_of st) (opt_prop r ''statusMessage'')), w1)
                       else pollRun R runId startTime (sleep R pollInterval w1)))))"
  by pat_completeness auto
termination
proof (relation "measure (\<lambda>(R, runId, startTime, w). nat (startTime + server_maxWaitTime + 1 - now w))",
    goal_cases)
  case 1
  show ?case by simp
next
  case (2 R runId startTime w x rp w1 runResponse r st)
  then have "now w1 = now w + int (took_ms R (run_endpoint runId) (asked w (run_endpoint runId)))"
    using request_now [of R "run_endpoint runId" w rp w1] by simp
  with 2 show ?case
    by (simp add: sleep_now pollInterval_def)
qed

declare pollRun.simps [simp del]

text \<open>The route handler reads the start time and calls \<^verbatim>\<open>pollRun()\<close>.\<close>

definition wait_route :: "remote \<Rightarrow> string \<Rightarrow> world \<Rightarrow> (thrown + RunOutcome) \<times> world" where
  "wait_route R runId w = pollRun R runId (now w) w"

section \<open>Predicates on replies and scripted remotes\<close>

subsection \<open>What a loop reads off a reply\<close>

text \<open>A status that is neither \<^verbatim>\<open>SUCCEEDED\<close> nor one of the three failure states.\<close>

definition pending :: "jsval \<Rightarrow> bool" where
  "pending st =
     (st \<noteq> Some (JStr ''SUCCEEDED'') \<and> st \<noteq> Some (JStr ''FAILED'')
      \<and> st \<noteq> Some (JStr ''ABORTED'') \<and> st \<noteq> Some (JStr ''TIMED-OUT''))"

text \<open>What the server's loop reads off a reply before it looks at the status.\<close>

definition server_fetch :: "reply \<Rightarrow> thrown + jsval" where
  "server_fetch rp =
     (case makeApifyRequest rp of
        Inl error \<Rightarrow> Inl error
      | Inr runResponse \<Rightarrow> get_prop (Some runResponse) ''data'')"

text \<open>The status the client's loop reads off a reply to its request for the run.\<close>

definition observed :: "reply \<Rightarrow> thrown + jsval" where
  "observed rp =
     (case makeRequest rp of
        Inl e \<Rightarrow> Inl e
      | Inr response \<Rightarrow>
          (case get_prop (Some response) ''data'' of
             Inl e \<Rightarrow> Inl e
           | Inr d \<Rightarrow> get_prop d ''status''))"

text \<open>The reply to the next request for the run, sent from world \<open>w\<close>.\<close>

definition next_reply :: "remote \<Rightarrow> string \<Rightarrow> world \<Rightarrow> reply" where
  "next_reply R runId w = get_reply R (run_endpoint runId) (asked w (run_endpoint runId))"

text \<open>That reply carries a run record with a pending status.\<close>

definition pending_at :: "remote \<Rightarrow> string \<Rightarrow> world \<Rightarrow> bool" where
  "pending_at R runId w = (\<exists>st. observed (next_reply R runId w) = Inr st \<and> pending st)"

text \<open>One turn of a loop on a pending run: the request for the run, then the sleep.\<close>

definition poll_once :: "remote \<Rightarrow> string \<Rightarrow> world \<Rightarrow> world" where
  "poll_once R runId w = sleep R pollInterval (snd (request R (run_endpoint runId) w))"

fun polls :: "remote \<Rightarrow> string \<Rightarrow> nat \<Rightarrow> world \<Rightarrow> world" where
  "polls R runId 0 w = w"
| "polls R runId (Suc k) w = poll_once R runId (polls R runId k w)"

text \<open>Every request for the run is answered, and with a pending status.\<close>

definition stays_pending :: "remote \<Rightarrow> string \<Rightarrow> bool" where
  "stays_pending R runId =
     (\<forall>k. \<exists>st. observed (get_reply R (run_endpoint runId) k) = Inr st \<and> pending st)"


text \<open>The outcome both loops build from a record that reads \<^verbatim>\<open>SUCCEEDED\<close>.\<close>

definition outcome_of :: "jsval \<Rightarrow> json \<Rightarrow> RunOutcome" where
  "outcome_of r ds =
     \<lparr> out_status = Some (JStr ''SUCCEEDED''),
       out_finishedAt = opt_prop r ''finishedAt'',
       out_stats = opt_prop r ''stats'',
       out_dataset = ds,
       out_run = r \<rparr>"

subsection \<open>Replies\<close>

text \<open>A 200 reply whose body is \<^verbatim>\<open>{"data": {...}}\<close> with the given fields.\<close>

definition run_reply :: "(string \<times> json) list \<Rightarrow> reply" where
  "run_reply kvs =
     Responded \<lparr> resp_status = 200, resp_statusText = ''OK'',
                 resp_body = Inr (JObj [(''data'', JObj kvs)]) \<rparr>"

text \<open>
  The record of a run that succeeded with dataset \<^verbatim>\<open>ds_1\<close>, the same record before the
  platform has allocated the dataset, and the record with an empty dataset id.
\<close>

definition succeeded_fields :: "(string \<times> json) list" where
  "succeeded_fields =
     [(''id'', JStr ''run_1''), (''status'', JStr ''SUCCEEDED''),
      (''defaultDatasetId'', JStr ''ds_1''), (''finishedAt'', JStr ''2025-01-01T00:00:00.000Z'')]"

definition unallocated_fields :: "(string \<times> json) list" where
  "unallocated_fields =
     [(''id'', JStr ''run_1''), (''status'', JStr ''SUCCEEDED''),
      (''finishedAt'', JStr ''2025-01-01T00:00:00.000Z'')]"

definition empty_id_fields :: "(string \<times> json) list" where
  "empty_id_fields =
     [(''id'', JStr ''run_1''), (''status'', JStr ''SUCCEEDED''),
      (''defaultDatasetId'', JStr []), (''finishedAt'', JStr ''2025-01-01T00:00:00.000Z'')]"

text \<open>The items of a dataset: \<^verbatim>\<open>[{"title": "x"}]\<close>.\<close>

definition items_reply :: reply where
  "items_reply =
     Responded \<lparr> resp_status = 200, resp_statusText = ''OK'',
                 resp_body = Inr (JArr [JObj [(''title'', JStr ''x'')]]) \<rparr>"

text \<open>A 200 response whose body is an HTML page, not JSON.\<close>

definition html_page :: http_response where
  "html_page = \<lparr> resp_status = 200, resp_statusText = ''OK'',
                  resp_body = Inl ''Unexpected token < in JSON at position 0'' \<rparr>"

text \<open>
  A 500 response whose \<^verbatim>\<open>error.message\<close> is the empty string, a 404 with a message, a 401
  with a message, and a 500 whose \<^verbatim>\<open>error.message\<close> is the object
  \<^verbatim>\<open>{"toString": null}\<close>.
\<close>

definition empty_message_500 :: http_response where
  "empty_message_500 =
     \<lparr> resp_status = 500, resp_statusText = ''Internal Server Error'',
       resp_body = Inr (JObj [(''error'', JObj [(''message'', JStr [])])]) \<rparr>"

definition not_found_404 :: http_response where
  "not_found_404 =
     \<lparr> resp_status = 404, resp_statusText = ''Not Found'',
       resp_body = Inr (JObj [(''error'', JObj [(''message'', JStr ''Actor not found'')])]) \<rparr>"


definition odd_message_500 :: http_response where
  "odd_message_500 =
     \<lparr> resp_status = 500, resp_statusText = ''Internal Server Error'',
       resp_body = Inr (JObj [(''error'', JObj [(''message'', JObj [(''toString'', JNull)])])]) \<rparr>"

text \<open>A job definition without \<^verbatim>\<open>defaultRunOptions\<close>, and a 404 that speaks of a missing schema.\<close>

definition no_schema_reply :: reply where
  "no_schema_reply =
     Responded \<lparr> resp_status = 200, resp_statusText = ''OK'',
                 resp_body = Inr (JObj [(''data'', JObj [(''id'', JStr ''abc''), (''name'', JStr ''crawler'')])]) \<rparr>"

definition schema_404_reply :: reply where
  "schema_404_reply =
     Responded \<lparr> resp_status = 404, resp_statusText = ''Not Found'',
                 resp_body = Inr (JObj [(''error'',
                   JObj [(''message'', JStr ''No input schema found for this actor'')])]) \<rparr>"

text \<open>A listing with one job record that has an id and a name only.\<close>

definition listing_reply :: reply where
  "listing_reply =
     Responded \<lparr> resp_status = 200, resp_statusText = ''OK'',
                 resp_body = Inr (JObj [(''data'', JObj [(''items'',
                   JArr [JObj [(''id'', JStr ''a1''), (''name'', JStr ''my-actor'')]])])]) \<rparr>"

subsection \<open>Remotes\<close>

text \<open>A run that failed, with an empty \<^verbatim>\<open>statusMessage\<close> and with the message \<^verbatim>\<open>bad input\<close>.\<close>

definition failed_silently :: remote where
  "failed_silently =
     \<lparr> get_reply = (\<lambda>endpoint k.
         run_reply [(''id'', JStr ''run_1''), (''status'', JStr ''FAILED''), (''statusMessage'', JStr [])]),
       took_ms = (\<lambda>endpoint k. 120),
       late_ms = (\<lambda>k. 0) \<rparr>"

definition failed_bad_input :: remote where
  "failed_bad_input =
     \<lparr> get_reply = (\<lambda>endpoint k.
         run_reply [(''id'', JStr ''run_1''), (''status'', JStr ''FAILED''),
                    (''statusMessage'', JStr ''bad input'')]),
       took_ms = (\<lambda>endpoint k. 120),
       late_ms = (\<lambda>k. 0) \<rparr>"

text \<open>A run that reports the status \<^verbatim>\<open>READY\<close> for ever.\<close>

definition ready_forever :: remote where
  "ready_forever =
     \<lparr> get_reply = (\<lambda>endpoint k. run_reply [(''id'', JStr ''run_1''), (''status'', JStr ''READY'')]),
       took_ms = (\<lambda>endpoint k. 300),
       late_ms = (\<lambda>k. 4) \<rparr>"

text \<open>
  A run that reports \<^verbatim>\<open>RUNNING\<close> for ever; every request takes 500 ms and every
  timer fires on time, so that the polls start 2500 ms apart.
\<close>

definition steady_running :: remote where
  "steady_running =
     \<lparr> get_reply = (\<lambda>endpoint k. run_reply [(''id'', JStr ''run_1''), (''status'', JStr ''RUNNING'')]),
       took_ms = (\<lambda>endpoint k. 500),
       late_ms = (\<lambda>k. 0) \<rparr>"

text \<open>The world after \<open>k\<close> polls of \<open>steady_running\<close>.\<close>

definition polled :: "nat \<Rightarrow> world \<Rightarrow> world" where
  "polled k w =
     w\<lparr> now := now w + 2500 * int k,
        asked := (asked w)(run_endpoint ''run_1'' := asked w (run_endpoint ''run_1'') + k),
        timers := timers w + k,
        log := log w @ map (\<lambda>i. (now w + 2500 * int i, run_endpoint ''run_1'')) [0..<k] \<rparr>"


text \<open>
  The first poll reads \<^verbatim>\<open>RUNNING\<close>, the later ones \<^verbatim>\<open>SUCCEEDED\<close> with dataset \<^verbatim>\<open>ds_1\<close>,
  whose endpoint returns \<^verbatim>\<open>[{"title": "x"}]\<close>.
\<close>

definition scenario_A :: remote where
  "scenario_A =
     \<lparr> get_reply = (\<lambda>endpoint k.
         if endpoint = run_endpoint ''run_1''
         then (if k = 0 then run_reply [(''id'', JStr ''run_1''), (''status'', JStr ''RUNNING'')]
               else run_reply succeeded_fields)
         else items_reply),
       took_ms = (\<lambda>endpoint k. 80),
       late_ms = (\<lambda>k. 1) \<rparr>"

text \<open>
  The run has succeeded, and every request is answered. The first record of the run
  has no \<^verbatim>\<open>defaultDatasetId\<close> yet, the later ones have \<^verbatim>\<open>ds_1\<close>; every dataset endpoint
  returns \<^verbatim>\<open>[{"title": "x"}]\<close>.
\<close>

definition allocated_late :: remote where
  "allocated_late =
     \<lparr> get_reply = (\<lambda>endpoint k.
         if endpoint = run_endpoint ''run_1''
         then (if k = 0 then run_reply unallocated_fields else run_reply succeeded_fields)
         else items_reply),
       took_ms = (\<lambda>endpoint k. 80),
       late_ms = (\<lambda>k. 1) \<rparr>"

text \<open>
  The run has succeeded and its record carries \<^verbatim>\<open>defaultDatasetId: ""\<close>; every dataset
  endpoint, the one for that id too, returns \<^verbatim>\<open>[{"title": "x"}]\<close>.
\<close>

definition empty_id :: remote where
  "empty_id =
     \<lparr> get_reply = (\<lambda>endpoint k.
         if endpoint = run_endpoint ''run_1'' then run_reply empty_id_fields else items_reply),
       took_ms = (\<lambda>endpoint k. 80),
       late_ms = (\<lambda>k. 1) \<rparr>"



section \<open>Facts about values and requests\<close>

lemma show_nat_500: "show_nat 500 = ''500''"
  by (simp add: show_nat.simps digit_def)

lemma get_prop_opt: "get_prop v p = Inr x \<Longrightarrow> opt_prop v p = x"
  by (cases "(v, p)" rule: get_prop.cases) auto

lemma get_prop_throws: "get_prop v p = Inl e \<Longrightarrow> opt_prop v p = None"
  by (cases "(v, p)" rule: get_prop.cases) auto

lemma get_prop_not_null: "v \<noteq> JNull \<Longrightarrow> get_prop (Some v) p = Inr (opt_prop (Some v) p)"
  by (cases v) auto

text \<open>The only thing a conversion to text throws.\<close>

lemma to_string_throws: "to_string j = Inl t \<Longrightarrow> t = cannot_convert"
  and elements_throws: "elements xs = Inl t \<Longrightarrow> t = cannot_convert"
  by (induction j and xs rule: to_string_elements.induct) (auto split: sum.splits if_splits)

lemma js_string_throws: "js_string v = Inl t \<Longrightarrow> t = cannot_convert"
  by (cases v) (auto simp: to_string_throws)

lemma js_string_cases: "(\<exists>s. js_string v = Inr s) \<or> js_string v = Inl cannot_convert"
  by (cases "js_string v") (auto dest: js_string_throws)

lemma errorMessage_of_unparsed:
  "resp_body r = Inl m \<Longrightarrow> errorMessage_of r = Some (JStr (http_line r))"
  by (simp add: errorMessage_of_def parse_body_def)

lemma errorMessage_of_parsed:
  "resp_body r = Inr d \<Longrightarrow>
   errorMessage_of r =
     js_or (opt_prop (opt_prop (Some d) ''error'') ''message'') (Some (JStr (http_line r)))"
  by (cases d) (simp_all add: errorMessage_of_def parse_body_def js_or_def)

text \<open>The message an error is constructed with is never \<^verbatim>\<open>undefined\<close>.\<close>

lemma js_or_defined: "js_or v (Some d) \<noteq> None"
  by (cases v) (simp_all add: js_or_def)

lemma errorMessage_of_defined: "errorMessage_of r \<noteq> None"
  unfolding errorMessage_of_def Let_def
  by (cases "parse_body r"; cases "get_prop (Some (projr (parse_body r))) ''error''")
    (simp_all add: js_or_defined)

lemma new_Error_text:
  "message \<noteq> None \<Longrightarrow>
   new_Error message
     = (case js_string message of Inl e \<Rightarrow> Inl e | Inr s \<Rightarrow> Inr (Exn PlainError s None))"
  by (cases message) (simp_all add: new_Error_def)

lemma new_ApiError_text:
  "message \<noteq> None \<Longrightarrow>
   new_ApiError message st
     = (case js_string message of Inl e \<Rightarrow> Inl e | Inr s \<Rightarrow> Inr (Exn ApiError s (Some st)))"
  by (cases message) (simp_all add: new_ApiError_def)

lemma makeRequest_rejected: "makeRequest (Rejected e) = Inl e"
  by (simp add: makeRequest_def)

lemma makeRequest_not_ok_text:
  "\<not> ok response \<Longrightarrow> js_string (errorMessage_of response) = Inr s \<Longrightarrow>
   makeRequest (Responded response) = Inl (Exn PlainError s None)"
  by (simp add: makeRequest_def new_Error_text errorMessage_of_defined)


lemma makeRequest_unparsed:
  "ok response \<Longrightarrow> resp_body response = Inl m \<Longrightarrow>
   makeRequest (Responded response) = Inl (Exn SyntaxError m None)"
  by (simp add: makeRequest_def parse_body_def)

section \<open>The request layer\<close>

text \<open>
  Claim C10. Every failure of the frontend's \<^verbatim>\<open>ApiClient.makeRequest\<close> should be an
  \<^verbatim>\<open>ApiError\<close> with a numeric status, a body that fails to parse under a success status
  included (status 0). The code returns \<^verbatim>\<open>response.json()\<close> without awaiting it, so on
  a 200 response whose body is an HTML page the \<^verbatim>\<open>SyntaxError\<close> of the parse leaves
  \<^verbatim>\<open>makeRequest\<close> as it is: no \<^verbatim>\<open>ApiError\<close>, no status.
\<close>

theorem C10_parse_failure_escapes:
  "ApiClient_makeRequest (Responded html_page)
     = Inl (Exn SyntaxError ''Unexpected token < in JSON at position 0'' None)"
  by (simp add: ApiClient_makeRequest_def html_page_def ok_def parse_body_def)

text \<open>
  Claim C7, as stated, fails: a 500 response whose body parses and whose
  \<^verbatim>\<open>error.message\<close> is present but is the empty string gives the message
  \<^verbatim>\<open>HTTP 500: Internal Server Error\<close>, not the field.
\<close>

theorem C7_empty_message_counterexample:
  "resp_body empty_message_500 = Inr (JObj [(''error'', JObj [(''message'', JStr [])])])
   \<and> opt_prop (opt_prop (Some (JObj [(''error'', JObj [(''message'', JStr [])])])) ''error'') ''message''
       = Some (JStr [])
   \<and> makeRequest (Responded empty_message_500)
       = Inl (Exn PlainError ''HTTP 500: Internal Server Error'' None)
   \<and> ApiClient_makeRequest (Responded empty_message_500)
       = Inl (Exn ApiError ''HTTP 500: Internal Server Error'' (Some 500))"
  by (simp add: empty_message_500_def makeRequest_def ApiClient_makeRequest_def ApiClient_catch_def
      new_Error_def new_ApiError_def ok_def errorMessage_of_def parse_body_def js_or_def
      http_line_def show_nat_500)

text \<open>
  Claim C7, amended. For a response with a non-success status, let the message value be
  \<^verbatim>\<open>error.message\<close> of the parsed body when the body parses and that field is truthy,
  and the string \<^verbatim>\<open>HTTP <status>: <statusText>\<close> when the body does not parse or the
  field is absent, empty or otherwise falsy (\<open>errorMessage_of\<close>). When the message value
  converts to a text, as every string does to itself, the direct client, the server and
  the frontend raise an error with that text as its message; the server's error and the
  frontend's \<^verbatim>\<open>ApiError\<close> carry the HTTP status, the direct client's error carries none.
  When the conversion throws, the direct client and the server raise that
  \<^verbatim>\<open>TypeError\<close> in place of their error, and the frontend an \<^verbatim>\<open>ApiError\<close> of status 0
  with the \<^verbatim>\<open>TypeError\<close>'s message. What is said of the frontend holds for every body
  but the JSON literal \<^verbatim>\<open>null\<close>. A \<^verbatim>\<open>fetch\<close> that rejects, so that there is no HTTP
  response, gives the frontend's \<^verbatim>\<open>ApiError\<close> the status 0.
\<close>

theorem C7_error_message:
  assumes "\<not> ok resp"
  shows "(\<forall>s. js_string (errorMessage_of resp) = Inr s \<longrightarrow>
            makeRequest (Responded resp) = Inl (Exn PlainError s None)
          \<and> makeApifyRequest (Responded resp) = Inl (Exn PlainError s (Some (resp_status resp)))
          \<and> (resp_body resp \<noteq> Inr JNull \<longrightarrow>
               ApiClient_makeRequest (Responded resp)
                 = Inl (Exn ApiError s (Some (resp_status resp)))))
       \<and> ((\<forall>s. js_string (errorMessage_of resp) \<noteq> Inr s) \<longrightarrow>
            makeRequest (Responded resp) = Inl cannot_convert
          \<and> makeApifyRequest (Responded resp) = Inl cannot_convert
          \<and> (resp_body resp \<noteq> Inr JNull \<longrightarrow>
               ApiClient_makeRequest (Responded resp)
                 = Inl (Exn ApiError ''Cannot convert object to primitive value'' (Some 0))))
       \<and> (\<forall>d m. resp_body resp = Inr d
                 \<and> opt_prop (opt_prop (Some d) ''error'') ''message'' = Some (JStr m) \<and> m \<noteq> []
              \<longrightarrow> js_string (errorMessage_of resp) = Inr m)
       \<and> (\<forall>d. resp_body resp = Inr d
                 \<and> truthy (opt_prop (opt_prop (Some d) ''error'') ''message'')
              \<longrightarrow> errorMessage_of resp = opt_prop (opt_prop (Some d) ''error'') ''message'')
       \<and> ((\<forall>d. resp_body resp = Inr d
                 \<longrightarrow> \<not> truthy (opt_prop (opt_prop (Some d) ''error'') ''message''))
              \<longrightarrow> js_string (errorMessage_of resp) = Inr (http_line resp))
       \<and> (\<forall>e. \<not> instanceof_ApiError e \<longrightarrow>
              ApiClient_makeRequest (Rejected e)
                = Inl (Exn ApiError (message_or e ''Network error occurred'') (Some 0)))"
proof -
  have front: "ApiClient_makeRequest (Responded resp) =
      (case new_ApiError (errorMessage_of resp) (resp_status resp) of
         Inl e \<Rightarrow> Inl (ApiClient_catch e)
       | Inr error \<Rightarrow> Inl (ApiClient_catch error))"
    if nn: "resp_body resp \<noteq> Inr JNull"
  proof (cases "resp_body resp")
    case (Inl m)
    with assms show ?thesis
      by (simp add: ApiClient_makeRequest_def parse_body_def errorMessage_of_def js_or_def)
  next
    case (Inr d)
    with nn have "d \<noteq> JNull" by simp
    with Inr assms show ?thesis
      by (simp add: ApiClient_makeRequest_def parse_body_def errorMessage_of_def get_prop_not_null)
  qed
  have 1: "makeRequest (Responded resp) = Inl (Exn PlainError s None)
          \<and> makeApifyRequest (Responded resp) = Inl (Exn PlainError s (Some (resp_status resp)))
          \<and> (resp_body resp \<noteq> Inr JNull \<longrightarrow>
               ApiClient_makeRequest (Responded resp)
                 = Inl (Exn ApiError s (Some (resp_status resp))))"
    if "js_string (errorMessage_of resp) = Inr s" for s
    using assms that front
    by (simp add: makeRequest_def makeApifyRequest_def new_Error_text new_ApiError_text
        errorMessage_of_defined ApiClient_catch_def)
  have 2: "makeRequest (Responded resp) = Inl cannot_convert
          \<and> makeApifyRequest (Responded resp) = Inl cannot_convert
          \<and> (resp_body resp \<noteq> Inr JNull \<longrightarrow>
               ApiClient_makeRequest (Responded resp)
                 = Inl (Exn ApiError ''Cannot convert object to primitive value'' (Some 0)))"
    if "\<forall>s. js_string (errorMessage_of resp) \<noteq> Inr s"
  proof -
    from that have "js_string (errorMessage_of resp) = Inl cannot_convert"
      using js_string_cases [of "errorMessage_of resp"] by blast
    with assms front show ?thesis
      by (simp add: makeRequest_def makeApifyRequest_def new_Error_text new_ApiError_text
          errorMessage_of_defined ApiClient_catch_def cannot_convert_def)
  qed
  have 3: "\<forall>d m. resp_body resp = Inr d
                 \<and> opt_prop (opt_prop (Some d) ''error'') ''message'' = Some (JStr m) \<and> m \<noteq> []
              \<longrightarrow> js_string (errorMessage_of resp) = Inr m"
    by (auto simp: errorMessage_of_parsed js_or_def)
  have 4: "\<forall>d. resp_body resp = Inr d
                 \<and> truthy (opt_prop (opt_prop (Some d) ''error'') ''message'')
              \<longrightarrow> errorMessage_of resp = opt_prop (opt_prop (Some d) ''error'') ''message''"
    by (auto simp: errorMessage_of_parsed js_or_def)
  have 5: "(\<forall>d. resp_body resp = Inr d
                 \<longrightarrow> \<not> truthy (opt_prop (opt_prop (Some d) ''error'') ''message''))
              \<longrightarrow> js_string (errorMessage_of resp) = Inr (http_line resp)"
  proof (cases "resp_body resp")
    case (Inl m)
    then show ?thesis by (simp add: errorMessage_of_unparsed)
  next
    case (Inr d)
    then show ?thesis by (simp add: errorMessage_of_parsed js_or_def)
  qed
  have 6: "\<forall>e. \<not> instanceof_ApiError e \<longrightarrow>
          ApiClient_makeRequest (Rejected e)
            = Inl (Exn ApiError (message_or e ''Network error occurred'') (Some 0))"
    by (simp add: ApiClient_makeRequest_def ApiClient_catch_def)
  from 1 2 3 4 5 6 show ?thesis by blast
qed

theorem C7_error_message_witness:
  "\<not> ok not_found_404
   \<and> makeRequest (Responded not_found_404) = Inl (Exn PlainError ''Actor not found'' None)
   \<and> makeApifyRequest (Responded not_found_404)
       = Inl (Exn PlainError ''Actor not found'' (Some 404))
   \<and> ApiClient_makeRequest (Responded not_found_404)
       = Inl (Exn ApiError ''Actor not found'' (Some 404))
   \<and> \<not> ok odd_message_500
   \<and> makeRequest (Responded odd_message_500)
       = Inl (Exn TypeError ''Cannot convert object to primitive value'' None)
   \<and> makeApifyRequest (Responded odd_message_500)
       = Inl (Exn TypeError ''Cannot convert object to primitive value'' None)
   \<and> ApiClient_makeRequest (Responded odd_message_500)
       = Inl (Exn ApiError ''Cannot convert object to primitive value'' (Some 0))
   \<and> ApiClient_makeRequest (Rejected (Exn TypeError ''Failed to fetch'' None))
       = Inl (Exn ApiError ''Failed to fetch'' (Some 0))"
proof -
  have nok: "\<not> ok not_found_404"
    by (simp add: ok_def not_found_404_def)
  have body: "resp_body not_found_404 \<noteq> Inr JNull"
    by (simp add: not_found_404_def)
  have field: "resp_body not_found_404
        = Inr (JObj [(''error'', JObj [(''message'', JStr ''Actor not found'')])])
      \<and> opt_prop (opt_prop (Some (JObj [(''error'', JObj [(''message'', JStr ''Actor not found'')])]))
          ''error'') ''message'' = Some (JStr ''Actor not found'') \<and> ''Actor not found'' \<noteq> []"
    by (simp add: not_found_404_def)
  have st: "resp_status not_found_404 = 404"
    by (simp add: not_found_404_def)
  from C7_error_message [OF nok] field
  have msg: "js_string (errorMessage_of not_found_404) = Inr ''Actor not found''"
    by blast
  with C7_error_message [OF nok] body st
  have a: "makeRequest (Responded not_found_404) = Inl (Exn PlainError ''Actor not found'' None)
      \<and> makeApifyRequest (Responded not_found_404)
          = Inl (Exn PlainError ''Actor not found'' (Some 404))
      \<and> ApiClient_makeRequest (Responded not_found_404)
          = Inl (Exn ApiError ''Actor not found'' (Some 404))"
    by metis
  have nok': "\<not> ok odd_message_500"
    by (simp add: ok_def odd_message_500_def)
  have body': "resp_body odd_message_500 \<noteq> Inr JNull"
    by (simp add: odd_message_500_def)
  have odd: "errorMessage_of odd_message_500 = Some (JObj [(''toString'', JNull)])"
    by (simp add: odd_message_500_def errorMessage_of_def parse_body_def js_or_def)
  have "\<forall>s. js_string (errorMessage_of odd_message_500) \<noteq> Inr s"
    by (simp add: odd)
  with C7_error_message [OF nok'] body'
  have b: "makeRequest (Responded odd_message_500) = Inl cannot_convert
      \<and> makeApifyRequest (Responded odd_message_500) = Inl cannot_convert
      \<and> ApiClient_makeRequest (Responded odd_message_500)
          = Inl (Exn ApiError ''Cannot convert object to primitive value'' (Some 0))"
    by blast
  have c: "ApiClient_makeRequest (Rejected (Exn TypeError ''Failed to fetch'' None))
       = Inl (Exn ApiError ''Failed to fetch'' (Some 0))"
    using C7_error_message [OF nok] by simp
  from nok nok' a b c show ?thesis
    by (simp add: cannot_convert_def)
qed

section \<open>The schema accessor\<close>

text \<open>
  Claim C8, as stated, fails. A job definition without an input schema (a 200 response)
  and a transport failure (a 404 whose body carries the message
  \<^verbatim>\<open>No input schema found for this actor\<close>) make \<^verbatim>\<open>getActorSchema\<close> throw the very same
  error: both are a plain \<^verbatim>\<open>Error\<close> built by the same \<^verbatim>\<open>catch\<close> block, and nothing
  but the message text could tell them apart.
\<close>

theorem C8_same_error_counterexample:
  "makeRequest no_schema_reply = Inr (JObj [(''data'', JObj [(''id'', JStr ''abc''), (''name'', JStr ''crawler'')])])
   \<and> makeRequest schema_404_reply = Inl (Exn PlainError ''No input schema found for this actor'' None)
   \<and> getActorSchema no_schema_reply
       = Inl (Exn PlainError ''Failed to fetch actor schema: No input schema found for this actor'' None)
   \<and> getActorSchema schema_404_reply = getActorSchema no_schema_reply"
  by (simp add: no_schema_reply_def schema_404_reply_def makeRequest_def ok_def parse_body_def
      errorMessage_of_def new_Error_def js_or_def getActorSchema_def getActorSchema_try_def rethrow_def)

text \<open>
  Claim C8, amended. For a job whose fetched definition has no (truthy) nested input
  schema, \<^verbatim>\<open>getActorSchema\<close> fails with a plain \<^verbatim>\<open>Error\<close> whose message is exactly
  \<^verbatim>\<open>Failed to fetch actor schema: No input schema found for this actor\<close>; a transport
  failure of the same fetch fails with a plain \<^verbatim>\<open>Error\<close> whose message is
  \<^verbatim>\<open>Failed to fetch actor schema: \<close> followed by the message of the transport failure.
  The two differ exactly when the transport failure's message is not
  \<^verbatim>\<open>No input schema found for this actor\<close>.
\<close>

theorem C8_no_schema:
  assumes "makeRequest rp = Inr response"
    and "get_prop (Some response) ''data'' = Inr d"
    and "get_prop d ''defaultRunOptions'' = Inr opts"
    and "\<not> truthy (opt_prop opts ''inputSchema'')"
    and "makeRequest rp' = Inl e"
  shows "getActorSchema rp
           = Inl (Exn PlainError ''Failed to fetch actor schema: No input schema found for this actor'' None)
       \<and> getActorSchema rp'
           = Inl (Exn PlainError (''Failed to fetch actor schema: '' @ message_or e ''Unknown error'') None)
       \<and> (getActorSchema rp' = getActorSchema rp
            \<longleftrightarrow> message_or e ''Unknown error'' = ''No input schema found for this actor'')"
proof -
  have a: "getActorSchema rp
      = Inl (Exn PlainError ''Failed to fetch actor schema: No input schema found for this actor'' None)"
    using assms(1-4) by (simp add: getActorSchema_def getActorSchema_try_def rethrow_def)
  have b: "getActorSchema rp'
      = Inl (Exn PlainError (''Failed to fetch actor schema: '' @ message_or e ''Unknown error'') None)"
    using assms(5) by (simp add: getActorSchema_def getActorSchema_try_def rethrow_def)
  show ?thesis
    unfolding a b by simp
qed

theorem C8_no_schema_witness:
  "getActorSchema no_schema_reply
     = Inl (Exn PlainError ''Failed to fetch actor schema: No input schema found for this actor'' None)
   \<and> getActorSchema (Rejected (Exn TypeError ''Failed to fetch'' None))
     = Inl (Exn PlainError ''Failed to fetch actor schema: Failed to fetch'' None)
   \<and> getActorSchema (Rejected (Exn TypeError ''Failed to fetch'' None)) \<noteq> getActorSchema no_schema_reply"
proof -
  have 1: "makeRequest no_schema_reply
      = Inr (JObj [(''data'', JObj [(''id'', JStr ''abc''), (''name'', JStr ''crawler'')])])"
    by (simp add: no_schema_reply_def makeRequest_def ok_def parse_body_def)
  have 2: "get_prop (Some (JObj [(''data'', JObj [(''id'', JStr ''abc''), (''name'', JStr ''crawler'')])])) ''data''
      = Inr (Some (JObj [(''id'', JStr ''abc''), (''name'', JStr ''crawler'')]))"
    by simp
  have 3: "get_prop (Some (JObj [(''id'', JStr ''abc''), (''name'', JStr ''crawler'')])) ''defaultRunOptions''
      = Inr None"
    by simp
  have 4: "\<not> truthy (opt_prop None ''inputSchema'')"
    by simp
  have 5: "makeRequest (Rejected (Exn TypeError ''Failed to fetch'' None))
      = Inl (Exn TypeError ''Failed to fetch'' None)"
    by (simp add: makeRequest_def)
  show ?thesis
    using C8_no_schema [OF 1 2 3 4 5] by simp
qed

section \<open>The listing\<close>

lemma map_throw_Inr:
  "\<forall>x\<in>set xs. \<exists>y. f x = Inr y \<Longrightarrow>
   \<exists>ys. map_throw f xs = Inr ys \<and> length ys = length xs
        \<and> (\<forall>i<length xs. f (xs ! i) = Inr (ys ! i))"
proof (induction xs)
  case Nil
  then show ?case by simp
next
  case (Cons x xs)
  then obtain y where y: "f x = Inr y" by auto
  from Cons obtain ys where ys: "map_throw f xs = Inr ys" "length ys = length xs"
    "\<forall>i<length xs. f (xs ! i) = Inr (ys ! i)" by auto
  have "\<forall>i<length (x # xs). f ((x # xs) ! i) = Inr ((y # ys) ! i)"
    using y ys(3) by (auto simp: nth_Cons split: nat.splits)
  with y ys show ?case by simp
qed

lemma toSummary_not_null:
  "a \<noteq> JNull \<Longrightarrow>
   toSummary a =
     Inr \<lparr> actor_id = opt_prop (Some a) ''id'',
           actor_name = opt_prop (Some a) ''name'',
           actor_title = js_or (opt_prop (Some a) ''title'') (opt_prop (Some a) ''name''),
           actor_description =
             js_or (opt_prop (Some a) ''description'') (Some (JStr ''No description available'')),
           actor_stats = js_or (opt_prop (Some a) ''stats'') (Some (JObj [(''totalRuns'', JNum ''0'')])) \<rparr>"
  by (simp add: toSummary_def get_prop_not_null)

text \<open>
  Claim C9. When the listing request succeeds and \<^verbatim>\<open>response.data.items\<close> is an array of
  job records (none of them \<^verbatim>\<open>null\<close>), \<^verbatim>\<open>getActors\<close> returns one summary per record, in
  order, with the record's id and name, and with the defaults for absent fields: the
  title is the name, the description is \<^verbatim>\<open>No description available\<close>, the stats are
  \<^verbatim>\<open>{totalRuns: 0}\<close>.
\<close>

theorem C9_listing_defaults:
  assumes "makeRequest rp = Inr response"
    and "get_prop (Some response) ''data'' = Inr d"
    and "get_prop d ''items'' = Inr (Some (JArr items))"
    and "JNull \<notin> set items"
  shows "\<exists>actors. getActors rp = Inr actors \<and> length actors = length items
       \<and> (\<forall>i<length items.
            actor_id (actors ! i) = opt_prop (Some (items ! i)) ''id''
          \<and> actor_name (actors ! i) = opt_prop (Some (items ! i)) ''name''
          \<and> (opt_prop (Some (items ! i)) ''title'' = None
               \<longrightarrow> actor_title (actors ! i) = opt_prop (Some (items ! i)) ''name'')
          \<and> (opt_prop (Some (items ! i)) ''description'' = None
               \<longrightarrow> actor_description (actors ! i) = Some (JStr ''No description available''))
          \<and> (opt_prop (Some (items ! i)) ''stats'' = None
               \<longrightarrow> actor_stats (actors ! i) = Some (JObj [(''totalRuns'', JNum ''0'')])))"
proof -
  have "\<forall>a\<in>set items. \<exists>y. toSummary a = Inr y"
  proof
    fix a assume "a \<in> set items"
    with assms(4) have "a \<noteq> JNull" by auto
    from toSummary_not_null [OF this] show "\<exists>y. toSummary a = Inr y" by simp
  qed
  then obtain actors where actors: "map_throw toSummary items = Inr actors"
    "length actors = length items" "\<forall>i<length items. toSummary (items ! i) = Inr (actors ! i)"
    using map_throw_Inr [of items toSummary] by blast
  have got: "getActors rp = Inr actors"
    using assms(1-3) actors(1) by (simp add: getActors_def getActors_try_def)
  have each: "actor_id (actors ! i) = opt_prop (Some (items ! i)) ''id''
          \<and> actor_name (actors ! i) = opt_prop (Some (items ! i)) ''name''
          \<and> (opt_prop (Some (items ! i)) ''title'' = None
               \<longrightarrow> actor_title (actors ! i) = opt_prop (Some (items ! i)) ''name'')
          \<and> (opt_prop (Some (items ! i)) ''description'' = None
               \<longrightarrow> actor_description (actors ! i) = Some (JStr ''No description available''))
          \<and> (opt_prop (Some (items ! i)) ''stats'' = None
               \<longrightarrow> actor_stats (actors ! i) = Some (JObj [(''totalRuns'', JNum ''0'')]))"
    if i: "i < length items" for i
  proof -
    have nn: "items ! i \<noteq> JNull"
      using assms(4) i by (metis nth_mem)
    have "toSummary (items ! i) = Inr (actors ! i)"
      using actors(3) i by simp
    then have "actors ! i =
        \<lparr> actor_id = opt_prop (Some (items ! i)) ''id'',
          actor_name = opt_prop (Some (items ! i)) ''name'',
          actor_title = js_or (opt_prop (Some (items ! i)) ''title'') (opt_prop (Some (items ! i)) ''name''),
          actor_description =
            js_or (opt_prop (Some (items ! i)) ''description'') (Some (JStr ''No description available'')),
          actor_stats =
            js_or (opt_prop (Some (items ! i)) ''stats'') (Some (JObj [(''totalRuns'', JNum ''0'')])) \<rparr>"
      using toSummary_not_null [OF nn] by simp
    then show ?thesis
      by (simp add: js_or_def)
  qed
  show ?thesis
    using got actors(2) each by blast
qed

theorem C9_listing_defaults_witness:
  "getActors listing_reply =
     Inr [\<lparr> actor_id = Some (JStr ''a1''), actor_name = Some (JStr ''my-actor''),
            actor_title = Some (JStr ''my-actor''),
            actor_description = Some (JStr ''No description available''),
            actor_stats = Some (JObj [(''totalRuns'', JNum ''0'')]) \<rparr>]"
proof -
  let ?item = "JObj [(''id'', JStr ''a1''), (''name'', JStr ''my-actor'')]"
  let ?d = "JObj [(''items'', JArr [?item])]"
  have 1: "makeRequest listing_reply = Inr (JObj [(''data'', ?d)])"
    by (simp add: listing_reply_def makeRequest_def ok_def parse_body_def)
  have 2: "get_prop (Some (JObj [(''data'', ?d)])) ''data'' = Inr (Some ?d)"
    by simp
  have 3: "get_prop (Some ?d) ''items'' = Inr (Some (JArr [?item]))"
    by simp
  have 4: "JNull \<notin> set [?item]"
    by simp
  from C9_listing_defaults [OF 1 2 3 4]
  obtain actors where a: "getActors listing_reply = Inr actors" "length actors = 1"
    and b: "actor_id (actors ! 0) = Some (JStr ''a1'')"
      "actor_name (actors ! 0) = Some (JStr ''my-actor'')"
      "actor_title (actors ! 0) = Some (JStr ''my-actor'')"
      "actor_description (actors ! 0) = Some (JStr ''No description available'')"
      "actor_stats (actors ! 0) = Some (JObj [(''totalRuns'', JNum ''0'')])"
    by auto
  from a(2) obtain s where s: "actors = [s]"
    by (cases actors) auto
  with b have "s = \<lparr> actor_id = Some (JStr ''a1''), actor_name = Some (JStr ''my-actor''),
            actor_title = Some (JStr ''my-actor''),
            actor_description = Some (JStr ''No description available''),
            actor_stats = Some (JObj [(''totalRuns'', JNum ''0'')]) \<rparr>"
    by (cases s) simp
  with a(1) s show ?thesis by simp
qed

section \<open>One turn of each loop\<close>

lemma waitForRun_loop_late:
  "\<not> now w - startTime < maxWaitTime \<Longrightarrow>
   waitForRun_loop R runId maxWaitTime startTime w = (Inl timeout_error, w)"
  by (simp add: waitForRun_loop.simps)



lemma waitForRun_loop_succeeded:
  "now w - startTime < maxWaitTime \<Longrightarrow> getRun R runId w = (Inr r, w1) \<Longrightarrow>
   get_prop r ''status'' = Inr (Some (JStr ''SUCCEEDED'')) \<Longrightarrow>
   getRunDataset R runId w1 = (ds, w2) \<Longrightarrow>
   waitForRun_loop R runId maxWaitTime startTime w =
     (Inr \<lparr> out_status = Some (JStr ''SUCCEEDED''),
            out_finishedAt = opt_prop r ''finishedAt'',
            out_stats = opt_prop r ''stats'',
            out_dataset = ds,
            out_run = r \<rparr>, w2)"
  by (simp add: waitForRun_loop.simps)

lemma waitForRun_loop_failed:
  "now w - startTime < maxWaitTime \<Longrightarrow> getRun R runId w = (Inr r, w1) \<Longrightarrow>
   get_prop r ''status'' = Inr (Some (JStr st)) \<Longrightarrow>
   st \<in> {''FAILED'', ''ABORTED'', ''TIMED-OUT''} \<Longrightarrow>
   waitForRun_loop R runId maxWaitTime startTime w
     = (Inl (run_failed st (opt_prop r ''statusMessage'')), w1)"
  by (auto simp add: waitForRun_loop.simps)

lemma waitForRun_loop_pending:
  "now w - startTime < maxWaitTime \<Longrightarrow> getRun R runId w = (Inr r, w1) \<Longrightarrow>
   get_prop r ''status'' = Inr st \<Longrightarrow> pending st \<Longrightarrow>
   waitForRun_loop R runId maxWaitTime startTime w
     = waitForRun_loop R runId maxWaitTime startTime (sleep R pollInterval w1)"
  by (subst waitForRun_loop.simps) (simp add: pending_def)

lemma server_fetch_Inr:
  "server_fetch rp = Inr r \<Longrightarrow>
   \<exists>runResponse. makeApifyRequest rp = Inr runResponse \<and> get_prop (Some runResponse) ''data'' = Inr r"
  by (cases "makeApifyRequest rp") (simp_all add: server_fetch_def)


lemma pollRun_late:
  "now w - startTime > server_maxWaitTime \<Longrightarrow>
   pollRun R runId startTime w = (Inl server_timeout_error, w)"
  by (simp add: pollRun.simps)



lemma pollRun_succeeded:
  assumes "\<not> now w - startTime > server_maxWaitTime"
    and "request R (run_endpoint runId) w = (rp, w1)" and "server_fetch rp = Inr r"
    and "get_prop r ''status'' = Inr (Some (JStr ''SUCCEEDED''))"
    and "pollRun_dataset R r w1 = (ds, w2)"
  shows "pollRun R runId startTime w =
     (Inr \<lparr> out_status = Some (JStr ''SUCCEEDED''),
            out_finishedAt = opt_prop r ''finishedAt'',
            out_stats = opt_prop r ''stats'',
            out_dataset = ds,
            out_run = r \<rparr>, w2)"
proof -
  from server_fetch_Inr [OF assms(3)] obtain runResponse where
    "makeApifyRequest rp = Inr runResponse" "get_prop (Some runResponse) ''data'' = Inr r" by blast
  with assms(1,2,4,5) show ?thesis
    by (subst pollRun.simps) simp
qed

lemma pollRun_failed:
  assumes "\<not> now w - startTime > server_maxWaitTime"
    and "request R (run_endpoint runId) w = (rp, w1)" and "server_fetch rp = Inr r"
    and "get_prop r ''status'' = Inr (Some (JStr st))"
    and "st \<in> {''FAILED'', ''ABORTED'', ''TIMED-OUT''}"
  shows "pollRun R runId startTime w = (Inl (run_failed st (opt_prop r ''statusMessage'')), w1)"
proof -
  from server_fetch_Inr [OF assms(3)] obtain runResponse where
    f: "makeApifyRequest rp = Inr runResponse" "get_prop (Some runResponse) ''data'' = Inr r" by blast
  from assms(5) consider "st = ''FAILED''" | "st = ''ABORTED''" | "st = ''TIMED-OUT''" by blast
  then show ?thesis
  proof cases
    case 1
    with f assms(1,2,4) show ?thesis by (subst pollRun.simps) simp
  next
    case 2
    with f assms(1,2,4) show ?thesis by (subst pollRun.simps) simp
  next
    case 3
    with f assms(1,2,4) show ?thesis by (subst pollRun.simps) simp
  qed
qed

lemma pollRun_pending:
  assumes "\<not> now w - startTime > server_maxWaitTime"
    and "request R (run_endpoint runId) w = (rp, w1)" and "server_fetch rp = Inr r"
    and "get_prop r ''status'' = Inr st" and "pending st"
  shows "pollRun R runId startTime w = pollRun R runId startTime (sleep R pollInterval w1)"
proof -
  from server_fetch_Inr [OF assms(3)] obtain runResponse where
    "makeApifyRequest rp = Inr runResponse" "get_prop (Some runResponse) ''data'' = Inr r" by blast
  with assms(1,2,4,5) show ?thesis
    by (subst pollRun.simps) (simp add: pending_def)
qed

section \<open>Scripted remotes\<close>

lemma makeRequest_run_reply: "makeRequest (run_reply kvs) = Inr (JObj [(''data'', JObj kvs)])"
  by (simp add: makeRequest_def run_reply_def ok_def parse_body_def)

lemma makeApifyRequest_run_reply:
  "makeApifyRequest (run_reply kvs) = Inr (JObj [(''data'', JObj kvs)])"
  by (simp add: makeApifyRequest_def run_reply_def ok_def parse_body_def)

lemma server_fetch_run_reply: "server_fetch (run_reply kvs) = Inr (Some (JObj kvs))"
  by (simp add: server_fetch_def makeApifyRequest_run_reply)

lemma getRun_run_reply:
  "get_reply R (run_endpoint runId) (asked w (run_endpoint runId)) = run_reply kvs \<Longrightarrow>
   getRun R runId w = (Inr (Some (JObj kvs)), snd (request R (run_endpoint runId) w))"
  by (simp add: getRun_def request_def makeRequest_run_reply)


lemma asked_boot: "asked (boot t) endpoint = 0"
  by (simp add: boot_def)

lemma now_boot: "now (boot t) = t"
  by (simp add: boot_def)

section \<open>Runs that end badly\<close>

lemma toLowerCase_FAILED: "toLowerCase ''FAILED'' = ''failed''"
  by (simp add: toLowerCase_def lower_char_def)

lemma toLowerCase_ABORTED: "toLowerCase ''ABORTED'' = ''aborted''"
  by (simp add: toLowerCase_def lower_char_def)

lemma toLowerCase_TIMED_OUT: "toLowerCase ''TIMED-OUT'' = ''timed-out''"
  by (simp add: toLowerCase_def lower_char_def)

text \<open>The four cases of the statement that throws for a run that ended badly.\<close>

lemma run_failed_string:
  "m \<noteq> [] \<Longrightarrow>
   run_failed st (Some (JStr m)) = Exn PlainError (''Actor run '' @ toLowerCase st @ '': '' @ m) None"
  by (simp add: run_failed_def js_or_def)

lemma run_failed_falsy:
  "\<not> truthy v \<Longrightarrow>
   run_failed st v
     = Exn PlainError (''Actor run '' @ toLowerCase st @ '': No error message available'') None"
  by (simp add: run_failed_def js_or_def)

lemma run_failed_text:
  "truthy v \<Longrightarrow> js_string v = Inr s \<Longrightarrow>
   run_failed st v = Exn PlainError (''Actor run '' @ toLowerCase st @ '': '' @ s) None"
  by (simp add: run_failed_def js_or_def)

lemma run_failed_throws:
  "truthy v \<Longrightarrow> \<forall>s. js_string v \<noteq> Inr s \<Longrightarrow> run_failed st v = cannot_convert"
  using js_string_cases [of v] by (auto simp: run_failed_def js_or_def)

text \<open>
  Claim C3, as stated, fails: a \<^verbatim>\<open>FAILED\<close> run whose \<^verbatim>\<open>statusMessage\<close> is present but is
  the empty string makes the client throw \<^verbatim>\<open>Actor run failed: No error message available\<close>,
  so the message is the fixed text and not the record's \<^verbatim>\<open>statusMessage\<close>.
\<close>

theorem C3_empty_statusMessage_counterexample:
  "get_reply failed_silently (run_endpoint ''run_1'') 0
     = run_reply [(''id'', JStr ''run_1''), (''status'', JStr ''FAILED''), (''statusMessage'', JStr [])]
   \<and> fst (waitForRun failed_silently ''run_1'' 300000 (boot 0))
     = Inl (Exn PlainError ''Actor run failed: No error message available'' None)"
proof -
  let ?kvs = "[(''id'', JStr ''run_1''), (''status'', JStr ''FAILED''), (''statusMessage'', JStr [])]"
  have r: "get_reply failed_silently (run_endpoint ''run_1'') k = run_reply ?kvs" for k
    by (simp add: failed_silently_def)
  have g: "getRun failed_silently ''run_1'' (boot 0)
      = (Inr (Some (JObj ?kvs)), snd (request failed_silently (run_endpoint ''run_1'') (boot 0)))"
    by (rule getRun_run_reply) (rule r)
  have "waitForRun_loop failed_silently ''run_1'' 300000 0 (boot 0)
      = (Inl (run_failed ''FAILED'' (opt_prop (Some (JObj ?kvs)) ''statusMessage'')),
         snd (request failed_silently (run_endpoint ''run_1'') (boot 0)))"
    by (rule waitForRun_loop_failed [OF _ g]) (simp_all add: now_boot)
  then show ?thesis
    by (simp add: r waitForRun_def now_boot run_failed_falsy toLowerCase_FAILED)
qed

text \<open>
  Claim C3, amended. When a poll within the budget reads a record whose status is
  \<^verbatim>\<open>FAILED\<close>, \<^verbatim>\<open>ABORTED\<close> or \<^verbatim>\<open>TIMED-OUT\<close>, the loop throws right after that fetch.
  What it throws is the error \<^verbatim>\<open>Actor run <detail>: <message>\<close>, where the detail is the
  lowercase of the status (\<^verbatim>\<open>failed\<close>, \<^verbatim>\<open>aborted\<close>, \<^verbatim>\<open>timed-out\<close>) and the message is the
  record's \<^verbatim>\<open>statusMessage\<close> when that is a non-empty string, the fixed text
  \<^verbatim>\<open>No error message available\<close> when it is absent, empty or otherwise falsy, and the
  text that \<^verbatim>\<open>String\<close> gives for it when it is any other truthy value; when that
  conversion throws, its \<^verbatim>\<open>TypeError\<close> is thrown in place of the error.
\<close>

theorem C3_run_failed:
  assumes "now w - startTime < maxWaitTime"
    and "getRun R runId w = (Inr r, w1)"
    and "get_prop r ''status'' = Inr (Some (JStr st))"
    and "st \<in> {''FAILED'', ''ABORTED'', ''TIMED-OUT''}"
  shows "\<exists>e. waitForRun_loop R runId maxWaitTime startTime w = (Inl e, w1)
       \<and> toLowerCase st \<in> {''failed'', ''aborted'', ''timed-out''}
       \<and> (\<forall>m. opt_prop r ''statusMessage'' = Some (JStr m) \<and> m \<noteq> [] \<longrightarrow>
            e = Exn PlainError (''Actor run '' @ toLowerCase st @ '': '' @ m) None)
       \<and> (\<not> truthy (opt_prop r ''statusMessage'') \<longrightarrow>
            e = Exn PlainError (''Actor run '' @ toLowerCase st @ '': No error message available'') None)
       \<and> (\<forall>s. truthy (opt_prop r ''statusMessage'')
                \<and> js_string (opt_prop r ''statusMessage'') = Inr s \<longrightarrow>
            e = Exn PlainError (''Actor run '' @ toLowerCase st @ '': '' @ s) None)
       \<and> (truthy (opt_prop r ''statusMessage'')
            \<and> (\<forall>s. js_string (opt_prop r ''statusMessage'') \<noteq> Inr s) \<longrightarrow>
            e = cannot_convert)"
proof -
  let ?e = "run_failed st (opt_prop r ''statusMessage'')"
  have "waitForRun_loop R runId maxWaitTime startTime w = (Inl ?e, w1)"
    by (rule waitForRun_loop_failed [OF assms])
  moreover have "toLowerCase st \<in> {''failed'', ''aborted'', ''timed-out''}"
    using assms(4) toLowerCase_FAILED toLowerCase_ABORTED toLowerCase_TIMED_OUT by auto
  moreover have "\<forall>m. opt_prop r ''statusMessage'' = Some (JStr m) \<and> m \<noteq> [] \<longrightarrow>
      ?e = Exn PlainError (''Actor run '' @ toLowerCase st @ '': '' @ m) None"
    by (simp add: run_failed_string)
  moreover have "\<not> truthy (opt_prop r ''statusMessage'') \<longrightarrow>
      ?e = Exn PlainError (''Actor run '' @ toLowerCase st @ '': No error message available'') None"
    by (simp add: run_failed_falsy)
  moreover have "\<forall>s. truthy (opt_prop r ''statusMessage'')
          \<and> js_string (opt_prop r ''statusMessage'') = Inr s \<longrightarrow>
      ?e = Exn PlainError (''Actor run '' @ toLowerCase st @ '': '' @ s) None"
    by (simp add: run_failed_text)
  moreover have "truthy (opt_prop r ''statusMessage'')
          \<and> (\<forall>s. js_string (opt_prop r ''statusMessage'') \<noteq> Inr s) \<longrightarrow> ?e = cannot_convert"
    by (simp add: run_failed_throws)
  ultimately show ?thesis by blast
qed

theorem C3_run_failed_witness:
  "fst (waitForRun failed_bad_input ''run_1'' 300000 (boot 0))
     = Inl (Exn PlainError ''Actor run failed: bad input'' None)"
proof -
  let ?kvs = "[(''id'', JStr ''run_1''), (''status'', JStr ''FAILED''),
               (''statusMessage'', JStr ''bad input'')]"
  let ?w1 = "snd (request failed_bad_input (run_endpoint ''run_1'') (boot 0))"
  have 1: "now (boot 0) - 0 < (300000::int)"
    by (simp add: now_boot)
  have 2: "getRun failed_bad_input ''run_1'' (boot 0) = (Inr (Some (JObj ?kvs)), ?w1)"
    by (rule getRun_run_reply) (simp add: failed_bad_input_def)
  have 3: "get_prop (Some (JObj ?kvs)) ''status'' = Inr (Some (JStr ''FAILED''))"
    by simp
  have 4: "''FAILED'' \<in> {''FAILED'', ''ABORTED'', ''TIMED-OUT''}"
    by simp
  from C3_run_failed [OF 1 2 3 4] obtain e where
    m: "waitForRun_loop failed_bad_input ''run_1'' 300000 0 (boot 0) = (Inl e, ?w1)"
    and s: "\<forall>m. opt_prop (Some (JObj ?kvs)) ''statusMessage'' = Some (JStr m) \<and> m \<noteq> [] \<longrightarrow>
              e = Exn PlainError (''Actor run '' @ toLowerCase ''FAILED'' @ '': '' @ m) None"
    by blast
  from s have "e = Exn PlainError (''Actor run '' @ toLowerCase ''FAILED'' @ '': '' @ ''bad input'') None"
    by simp
  with m show ?thesis
    by (simp add: waitForRun_def now_boot toLowerCase_FAILED)
qed

text \<open>The server's loop throws the same for such a record.\<close>

lemma pollRun_run_failed:
  assumes "\<not> now w - startTime > server_maxWaitTime"
    and "request R (run_endpoint runId) w = (rp, w1)" and "server_fetch rp = Inr r"
    and "get_prop r ''status'' = Inr (Some (JStr st))"
    and "st \<in> {''FAILED'', ''ABORTED'', ''TIMED-OUT''}"
    and "getRun R runId w = (Inr r, w1)" and "now w - startTime < maxWaitTime"
  shows "fst (pollRun R runId startTime w) = fst (waitForRun_loop R runId maxWaitTime startTime w)"
  using pollRun_failed [OF assms(1-5)] waitForRun_loop_failed [OF assms(7,6,4,5)] by simp

section \<open>Runs that stay pending\<close>

lemma observed_Inr:
  "observed rp = Inr st \<Longrightarrow>
   \<exists>response r. makeRequest rp = Inr response \<and> get_prop (Some response) ''data'' = Inr r
     \<and> get_prop r ''status'' = Inr st"
  by (auto simp: observed_def split: sum.splits)


lemma getRun_observed:
  assumes "observed (get_reply R (run_endpoint runId) (asked w (run_endpoint runId))) = Inr st"
  shows "\<exists>r. getRun R runId w = (Inr r, snd (request R (run_endpoint runId) w))
           \<and> get_prop r ''status'' = Inr st"
proof -
  from observed_Inr [OF assms] obtain response r where
    "makeRequest (get_reply R (run_endpoint runId) (asked w (run_endpoint runId))) = Inr response"
    "get_prop (Some response) ''data'' = Inr r" "get_prop r ''status'' = Inr st" by blast
  then show ?thesis
    by (simp add: getRun_def request_def)
qed


lemma client_times_out:
  "stays_pending R runId \<Longrightarrow>
   fst (waitForRun_loop R runId maxWaitTime startTime w) = Inl timeout_error"
proof (induction R runId maxWaitTime startTime w rule: waitForRun_loop.induct)
  case (1 R runId maxWaitTime startTime w)
  show ?case
  proof (cases "now w - startTime < maxWaitTime")
    case False
    then show ?thesis by (simp add: waitForRun_loop_late)
  next
    case True
    from "1.prems" obtain st where
      st: "observed (get_reply R (run_endpoint runId) (asked w (run_endpoint runId))) = Inr st"
      "pending st"
      unfolding stays_pending_def by blast
    from getRun_observed [OF st(1)] obtain r where
      r: "getRun R runId w = (Inr r, snd (request R (run_endpoint runId) w))"
      "get_prop r ''status'' = Inr st" by blast
    let ?w1 = "snd (request R (run_endpoint runId) w)"
    have step: "waitForRun_loop R runId maxWaitTime startTime w
        = waitForRun_loop R runId maxWaitTime startTime (sleep R pollInterval ?w1)"
      by (rule waitForRun_loop_pending [OF True r st(2)])
    have "fst (waitForRun_loop R runId maxWaitTime startTime (sleep R pollInterval ?w1))
        = Inl timeout_error"
    proof (rule "1.IH" [OF True r(1) [symmetric] refl r(2)])
      show "st \<noteq> Some (JStr ''SUCCEEDED'')"
        using st(2) by (simp add: pending_def)
      show "\<not> (st = Some (JStr ''FAILED'') \<or> st = Some (JStr ''ABORTED'')
               \<or> st = Some (JStr ''TIMED-OUT''))"
        using st(2) by (simp add: pending_def)
      show "stays_pending R runId" by (rule "1.prems")
    qed
    with step show ?thesis by simp
  qed
qed


lemma observed_run_reply: "observed (run_reply kvs) = get_prop (Some (JObj kvs)) ''status''"
  by (simp add: observed_def makeRequest_run_reply)

subsection \<open>Any number of pending polls\<close>

lemma now_poll_once:
  "now (poll_once R runId w)
     = now w + int (took_ms R (run_endpoint runId) (asked w (run_endpoint runId)))
       + 2000 + int (late_ms R (timers w))"
  by (simp add: poll_once_def sleep_def request_def pollInterval_def)

lemma log_poll_once: "log (poll_once R runId w) = log w @ [(now w, run_endpoint runId)]"
  by (simp add: poll_once_def sleep_def request_def)

lemma timers_poll_once: "timers (poll_once R runId w) = Suc (timers w)"
  by (simp add: poll_once_def sleep_def request_def)

lemma log_polls:
  "log (polls R runId n w) = log w @ map (\<lambda>k. (now (polls R runId k w), run_endpoint runId)) [0..<n]"
  by (induction n) (simp_all add: log_poll_once)

lemma timers_polls: "timers (polls R runId n w) = timers w + n"
  by (induction n) (simp_all add: timers_poll_once)

lemma waitForRun_loop_poll_once:
  assumes "now w - startTime < maxWaitTime" and "pending_at R runId w"
  shows "waitForRun_loop R runId maxWaitTime startTime w
       = waitForRun_loop R runId maxWaitTime startTime (poll_once R runId w)"
proof -
  from assms(2) obtain st where
    st: "observed (get_reply R (run_endpoint runId) (asked w (run_endpoint runId))) = Inr st"
    "pending st"
    unfolding pending_at_def next_reply_def by blast
  from getRun_observed [OF st(1)] obtain r where
    r: "getRun R runId w = (Inr r, snd (request R (run_endpoint runId) w))"
    "get_prop r ''status'' = Inr st" by blast
  show ?thesis
    unfolding poll_once_def by (rule waitForRun_loop_pending [OF assms(1) r st(2)])
qed

lemma waitForRun_loop_polls:
  "\<forall>k<n. now (polls R runId k w) - startTime < maxWaitTime \<and> pending_at R runId (polls R runId k w) \<Longrightarrow>
   waitForRun_loop R runId maxWaitTime startTime w
     = waitForRun_loop R runId maxWaitTime startTime (polls R runId n w)"
proof (induction n)
  case 0
  show ?case by simp
next
  case (Suc n)
  have "waitForRun_loop R runId maxWaitTime startTime w
      = waitForRun_loop R runId maxWaitTime startTime (polls R runId n w)"
    using Suc by simp
  also have "\<dots> = waitForRun_loop R runId maxWaitTime startTime (poll_once R runId (polls R runId n w))"
    using Suc.prems by (intro waitForRun_loop_poll_once) simp_all
  finally show ?case by simp
qed

text \<open>
  Claim C4. Let the first \<open>n\<close> polls from \<open>w\<close> each start within the budget and each read
  a status that is neither \<^verbatim>\<open>SUCCEEDED\<close> nor one of \<^verbatim>\<open>FAILED\<close>, \<^verbatim>\<open>ABORTED\<close>,
  \<^verbatim>\<open>TIMED-OUT\<close> (any other string, or no status at all), and let the budget be used up
  after the \<open>n\<close>-th sleep. Then the loop throws nothing on any of these statuses: it
  sends exactly those \<open>n\<close> requests for the run, each at the time the poll starts,
  sleeps after each of them for the poll interval, at least 2000 ms, and then, and only
  then, fails with the timeout error.
\<close>

theorem C4_unrecognized_status_pending:
  assumes "\<forall>k<n. now (polls R runId k w) - startTime < maxWaitTime
                \<and> pending_at R runId (polls R runId k w)"
    and "\<not> now (polls R runId n w) - startTime < maxWaitTime"
  shows "waitForRun_loop R runId maxWaitTime startTime w = (Inl timeout_error, polls R runId n w)
       \<and> log (polls R runId n w)
           = log w @ map (\<lambda>k. (now (polls R runId k w), run_endpoint runId)) [0..<n]
       \<and> timers (polls R runId n w) = timers w + n
       \<and> (\<forall>k<n. now (polls R runId k w) + 2000 \<le> now (polls R runId (Suc k) w))"
proof (intro conjI)
  have "waitForRun_loop R runId maxWaitTime startTime w
      = waitForRun_loop R runId maxWaitTime startTime (polls R runId n w)"
    by (rule waitForRun_loop_polls [OF assms(1)])
  also have "\<dots> = (Inl timeout_error, polls R runId n w)"
    by (rule waitForRun_loop_late [OF assms(2)])
  finally show "waitForRun_loop R runId maxWaitTime startTime w
      = (Inl timeout_error, polls R runId n w)" .
  show "log (polls R runId n w)
      = log w @ map (\<lambda>k. (now (polls R runId k w), run_endpoint runId)) [0..<n]"
    by (rule log_polls)
  show "timers (polls R runId n w) = timers w + n"
    by (rule timers_polls)
  show "\<forall>k<n. now (polls R runId k w) + 2000 \<le> now (polls R runId (Suc k) w)"
    by (simp add: now_poll_once)
qed

lemma polls_ready_forever:
  "polls ready_forever ''run_1'' (Suc 0) (boot 0)
     = \<lparr> now = 2304, asked = (\<lambda>endpoint. 0)(run_endpoint ''run_1'' := 1), timers = 1,
         log = [(0, run_endpoint ''run_1'')] \<rparr>"
  "polls ready_forever ''run_1'' (Suc (Suc 0)) (boot 0)
     = \<lparr> now = 4608, asked = (\<lambda>endpoint. 0)(run_endpoint ''run_1'' := 2), timers = 2,
         log = [(0, run_endpoint ''run_1''), (2304, run_endpoint ''run_1'')] \<rparr>"
  by (simp_all add: poll_once_def sleep_def request_def boot_def ready_forever_def pollInterval_def
      numeral_2_eq_2)

lemma pending_at_ready_forever: "pending_at ready_forever ''run_1'' w"
  by (simp add: pending_at_def next_reply_def ready_forever_def observed_run_reply pending_def)

theorem C4_unrecognized_status_pending_witness:
  "waitForRun ready_forever ''run_1'' 4000 (boot 0)
     = (Inl (Exn PlainError ''Actor run timed out - taking longer than expected'' None),
        \<lparr> now = 4608, asked = (\<lambda>endpoint. 0)(run_endpoint ''run_1'' := 2), timers = 2,
          log = [(0, run_endpoint ''run_1''), (2304, run_endpoint ''run_1'')] \<rparr>)"
proof -
  have 1: "\<forall>k<Suc (Suc 0). now (polls ready_forever ''run_1'' k (boot 0)) - 0 < (4000::int)
      \<and> pending_at ready_forever ''run_1'' (polls ready_forever ''run_1'' k (boot 0))"
  proof (intro allI impI)
    fix k :: nat
    assume "k < Suc (Suc 0)"
    then consider "k = 0" | "k = Suc 0"
      by (cases k) auto
    then show "now (polls ready_forever ''run_1'' k (boot 0)) - 0 < (4000::int)
        \<and> pending_at ready_forever ''run_1'' (polls ready_forever ''run_1'' k (boot 0))"
    proof cases
      case 1
      then show ?thesis
        by (simp add: now_boot pending_at_ready_forever)
    next
      case 2
      then show ?thesis
        by (simp add: pending_at_ready_forever polls_ready_forever(1) del: polls.simps)
    qed
  qed
  have 2: "\<not> now (polls ready_forever ''run_1'' (Suc (Suc 0)) (boot 0)) - 0 < (4000::int)"
    by (simp add: polls_ready_forever del: polls.simps)
  from C4_unrecognized_status_pending [OF 1 2]
  have "waitForRun_loop ready_forever ''run_1'' 4000 0 (boot 0)
      = (Inl timeout_error, polls ready_forever ''run_1'' (Suc (Suc 0)) (boot 0))"
    by blast
  then show ?thesis
    by (simp add: waitForRun_def now_boot polls_ready_forever timeout_error_def del: polls.simps)
qed

section \<open>The deadline\<close>

text \<open>
  While the run stays pending the client sends nothing but requests for the run, and
  each of them starts before the deadline \<open>startTime + maxWaitTime\<close>.
\<close>

lemma log_request: "log (snd (request R endpoint w)) = log w @ [(now w, endpoint)]"
  by (simp add: request_def)

lemma log_sleep: "log (sleep R ms w) = log w"
  by (simp add: sleep_def)

lemma client_polls_before_deadline:
  "stays_pending R runId \<Longrightarrow>
   \<exists>new. log (snd (waitForRun_loop R runId maxWaitTime startTime w)) = log w @ new
     \<and> (\<forall>x\<in>set new. fst x < startTime + maxWaitTime \<and> snd x = run_endpoint runId)"
proof (induction R runId maxWaitTime startTime w rule: waitForRun_loop.induct)
  case (1 R runId maxWaitTime startTime w)
  show ?case
  proof (cases "now w - startTime < maxWaitTime")
    case False
    then show ?thesis by (simp add: waitForRun_loop_late)
  next
    case True
    from "1.prems" obtain st where
      st: "observed (get_reply R (run_endpoint runId) (asked w (run_endpoint runId))) = Inr st"
      "pending st"
      unfolding stays_pending_def by blast
    from getRun_observed [OF st(1)] obtain r where
      r: "getRun R runId w = (Inr r, snd (request R (run_endpoint runId) w))"
      "get_prop r ''status'' = Inr st" by blast
    let ?w1 = "snd (request R (run_endpoint runId) w)"
    have step: "waitForRun_loop R runId maxWaitTime startTime w
        = waitForRun_loop R runId maxWaitTime startTime (sleep R pollInterval ?w1)"
      by (rule waitForRun_loop_pending [OF True r st(2)])
    have "\<exists>new. log (snd (waitForRun_loop R runId maxWaitTime startTime (sleep R pollInterval ?w1)))
            = log (sleep R pollInterval ?w1) @ new
        \<and> (\<forall>x\<in>set new. fst x < startTime + maxWaitTime \<and> snd x = run_endpoint runId)"
    proof (rule "1.IH" [OF True r(1) [symmetric] refl r(2)])
      show "st \<noteq> Some (JStr ''SUCCEEDED'')"
        using st(2) by (simp add: pending_def)
      show "\<not> (st = Some (JStr ''FAILED'') \<or> st = Some (JStr ''ABORTED'')
               \<or> st = Some (JStr ''TIMED-OUT''))"
        using st(2) by (simp add: pending_def)
      show "stays_pending R runId" by (rule "1.prems")
    qed
    then obtain new where new:
      "log (snd (waitForRun_loop R runId maxWaitTime startTime (sleep R pollInterval ?w1)))
         = log w @ (now w, run_endpoint runId) # new"
      "\<forall>x\<in>set new. fst x < startTime + maxWaitTime \<and> snd x = run_endpoint runId"
      by (auto simp: log_sleep log_request)
    have "\<forall>x\<in>set ((now w, run_endpoint runId) # new).
        fst x < startTime + maxWaitTime \<and> snd x = run_endpoint runId"
      using new(2) True by simp
    with new(1) step show ?thesis by metis
  qed
qed

lemma stays_pending_steady_running: "stays_pending steady_running runId"
  by (simp add: stays_pending_def steady_running_def observed_run_reply pending_def)

lemma polled_0: "polled 0 w = w"
  by (simp add: polled_def)

lemma poll_steady_running:
  "sleep steady_running pollInterval (snd (request steady_running (run_endpoint ''run_1'') (polled k w)))
     = polled (Suc k) w"
  by (simp add: polled_def sleep_def request_def steady_running_def pollInterval_def algebra_simps)

lemma pollRun_steady_running:
  "now w + 2500 * int k - startTime \<le> 302500 \<Longrightarrow>
   pollRun steady_running ''run_1'' startTime w
     = pollRun steady_running ''run_1'' startTime (polled k w)"
proof (induction k)
  case 0
  show ?case by (simp add: polled_0)
next
  case (Suc k)
  let ?rp = "run_reply [(''id'', JStr ''run_1''), (''status'', JStr ''RUNNING'')]"
  let ?w1 = "snd (request steady_running (run_endpoint ''run_1'') (polled k w))"
  have "pollRun steady_running ''run_1'' startTime w
      = pollRun steady_running ''run_1'' startTime (polled k w)"
    using Suc by simp
  also have "\<dots> = pollRun steady_running ''run_1'' startTime (sleep steady_running pollInterval ?w1)"
  proof (rule pollRun_pending)
    show "\<not> now (polled k w) - startTime > server_maxWaitTime"
      using Suc.prems by (simp add: polled_def server_maxWaitTime_def)
    show "request steady_running (run_endpoint ''run_1'') (polled k w) = (?rp, ?w1)"
      by (simp add: request_def steady_running_def)
    show "server_fetch ?rp = Inr (Some (JObj [(''id'', JStr ''run_1''), (''status'', JStr ''RUNNING'')]))"
      by (rule server_fetch_run_reply)
    show "get_prop (Some (JObj [(''id'', JStr ''run_1''), (''status'', JStr ''RUNNING'')])) ''status''
        = Inr (Some (JStr ''RUNNING''))"
      by simp
    show "pending (Some (JStr ''RUNNING''))"
      by (simp add: pending_def)
  qed
  also have "\<dots> = pollRun steady_running ''run_1'' startTime (polled (Suc k) w)"
    by (simp only: poll_steady_running)
  finally show ?case .
qed

lemma wait_route_steady_running:
  "wait_route steady_running ''run_1'' (boot 0) = (Inl server_timeout_error, polled 121 (boot 0))"
proof -
  have "pollRun steady_running ''run_1'' 0 (boot 0)
      = pollRun steady_running ''run_1'' 0 (polled 121 (boot 0))"
    by (rule pollRun_steady_running) (simp add: now_boot)
  also have "\<dots> = (Inl server_timeout_error, polled 121 (boot 0))"
    by (rule pollRun_late) (simp add: polled_def now_boot server_maxWaitTime_def)
  finally show ?thesis
    by (simp add: wait_route_def now_boot)
qed

text \<open>
  Claim C1. A poller must time out once the elapsed time has reached the budget and
  must never start a request for the run at or past the deadline. The client's loop
  tests \<^verbatim>\<open>elapsed < maxWaitTime\<close> and keeps to that; the server's \<^verbatim>\<open>pollRun\<close> tests
  \<^verbatim>\<open>elapsed > maxWaitTime\<close>, so at an elapsed time of exactly 300000 ms it polls once
  more. Here every request for the run takes 500 ms and reads \<^verbatim>\<open>RUNNING\<close>, and every
  timer fires on time: the server's 121st request starts at 300000 ms after entry, on
  the deadline, and only then does the route fail with its timeout error.
\<close>

theorem C1_server_polls_at_deadline:
  "fst (wait_route steady_running ''run_1'' (boot 0)) = Inl server_timeout_error
   \<and> now (boot 0) + server_maxWaitTime = 300000
   \<and> (300000, ''/actor-runs/run_1'') \<in> set (log (snd (wait_route steady_running ''run_1'' (boot 0))))"
proof -
  have "(now (boot 0) + 2500 * int 120, run_endpoint ''run_1'')
      \<in> (\<lambda>i. (now (boot 0) + 2500 * int i, run_endpoint ''run_1'')) ` set [0..<121]"
    by (rule imageI) simp
  then have "(300000, ''/actor-runs/run_1'') \<in> set (log (polled 121 (boot 0)))"
    by (simp add: polled_def boot_def run_endpoint_def)
  then show ?thesis
    by (simp add: wait_route_steady_running now_boot server_maxWaitTime_def)
qed

text \<open>On the same remote the client stops before the deadline.\<close>

lemma client_stops_before_deadline:
  "fst (waitForRun steady_running ''run_1'' 300000 (boot 0)) = Inl timeout_error
   \<and> (300000, run_endpoint ''run_1'')
       \<notin> set (log (snd (waitForRun steady_running ''run_1'' 300000 (boot 0))))"
proof
  show "fst (waitForRun steady_running ''run_1'' 300000 (boot 0)) = Inl timeout_error"
    unfolding waitForRun_def by (rule client_times_out) (rule stays_pending_steady_running)
  from client_polls_before_deadline [OF stays_pending_steady_running,
      of "''run_1''" 300000 "now (boot 0)" "boot 0"]
  obtain new where
    "log (snd (waitForRun steady_running ''run_1'' 300000 (boot 0))) = log (boot 0) @ new"
    "\<forall>x\<in>set new. fst x < now (boot 0) + 300000 \<and> snd x = run_endpoint ''run_1''"
    unfolding waitForRun_def by blast
  then show "(300000, run_endpoint ''run_1'')
      \<notin> set (log (snd (waitForRun steady_running ''run_1'' 300000 (boot 0))))"
    by (auto simp: boot_def)
qed

text \<open>
  A budget of 1000 ms and a poll interval of 2000 ms: one poll that reads \<^verbatim>\<open>RUNNING\<close>,
  then the timeout error, and no second request.
\<close>

lemma client_short_budget:
  "waitForRun steady_running ''run_1'' 1000 (boot 0)
     = (Inl timeout_error,
        \<lparr> now = 2500, asked = (\<lambda>endpoint. 0)(run_endpoint ''run_1'' := 1), timers = 1,
          log = [(0, run_endpoint ''run_1'')] \<rparr>)"
proof -
  let ?kvs = "[(''id'', JStr ''run_1''), (''status'', JStr ''RUNNING'')]"
  let ?w1 = "snd (request steady_running (run_endpoint ''run_1'') (boot 0))"
  let ?w2 = "sleep steady_running pollInterval ?w1"
  have g: "getRun steady_running ''run_1'' (boot 0) = (Inr (Some (JObj ?kvs)), ?w1)"
    by (rule getRun_run_reply) (simp add: steady_running_def)
  have w2: "?w2 = \<lparr> now = 2500, asked = (\<lambda>endpoint. 0)(run_endpoint ''run_1'' := 1), timers = 1,
          log = [(0, run_endpoint ''run_1'')] \<rparr>"
    by (simp add: sleep_def request_def boot_def steady_running_def pollInterval_def)
  have "waitForRun_loop steady_running ''run_1'' 1000 0 (boot 0)
      = waitForRun_loop steady_running ''run_1'' 1000 0 ?w2"
  proof (rule waitForRun_loop_pending [OF _ g])
    show "now (boot 0) - 0 < (1000::int)"
      by (simp add: now_boot)
    show "get_prop (Some (JObj ?kvs)) ''status'' = Inr (Some (JStr ''RUNNING''))"
      by simp
    show "pending (Some (JStr ''RUNNING''))"
      by (simp add: pending_def)
  qed
  also have "\<dots> = (Inl timeout_error, ?w2)"
    by (rule waitForRun_loop_late) (simp add: w2)
  finally show ?thesis
    by (simp add: waitForRun_def now_boot w2)
qed

section \<open>The dataset of a run that succeeded\<close>

lemma getRunDataset_swallows:
  "getRunDataset_try R runId w = (Inl e, w1) \<Longrightarrow> getRunDataset R runId w = (JArr [], w1)"
  by (simp add: getRunDataset_def)

lemma getRunDataset_returns:
  "getRunDataset_try R runId w = (Inr response, w1) \<Longrightarrow> getRunDataset R runId w = (response, w1)"
  by (simp add: getRunDataset_def)

lemma dataset_endpoint_string:
  "dataset_endpoint (Some (JStr s)) = Inr (''/datasets/'' @ s @ ''/items?format=json'')"
  by (simp add: dataset_endpoint_def)

lemma dataset_endpoint_text:
  "js_string d = Inr s \<Longrightarrow> dataset_endpoint d = Inr (''/datasets/'' @ s @ ''/items?format=json'')"
  by (simp add: dataset_endpoint_def)

lemma dataset_endpoint_throws:
  "\<forall>s. js_string d \<noteq> Inr s \<Longrightarrow> dataset_endpoint d = Inl cannot_convert"
  using js_string_cases [of d] by (auto simp: dataset_endpoint_def)


text \<open>The ways the \<^verbatim>\<open>try\<close> block of \<^verbatim>\<open>getRunDataset\<close> can throw, and what it returns.\<close>

lemma getRunDataset_try_refetch_fails:
  "getRun R runId w = (Inl e, w1) \<Longrightarrow> getRunDataset_try R runId w = (Inl e, w1)"
  by (simp add: getRunDataset_try_def)

lemma getRunDataset_try_conversion_fails:
  "getRun R runId w = (Inr r, w1) \<Longrightarrow> get_prop r ''defaultDatasetId'' = Inr datasetId \<Longrightarrow>
   truthy datasetId \<Longrightarrow> dataset_endpoint datasetId = Inl e \<Longrightarrow>
   getRunDataset_try R runId w = (Inl e, w1)"
  by (simp add: getRunDataset_try_def)

lemma getRunDataset_try_items:
  "getRun R runId w = (Inr r, w1) \<Longrightarrow> get_prop r ''defaultDatasetId'' = Inr datasetId \<Longrightarrow>
   truthy datasetId \<Longrightarrow> dataset_endpoint datasetId = Inr endpoint \<Longrightarrow>
   request R endpoint w1 = (rp, w2) \<Longrightarrow>
   getRunDataset_try R runId w = (makeRequest rp, w2)"
  by (simp add: getRunDataset_try_def)

lemma getRunDataset_try_no_id:
  "getRun R runId w = (Inr r, w1) \<Longrightarrow> get_prop r ''defaultDatasetId'' = Inr datasetId \<Longrightarrow>
   \<not> truthy datasetId \<Longrightarrow> getRunDataset_try R runId w = (Inr (JArr []), w1)"
  by (simp add: getRunDataset_try_def)

lemma getRunDataset_try_no_record:
  "getRun R runId w = (Inr r, w1) \<Longrightarrow> get_prop r ''defaultDatasetId'' = Inl e \<Longrightarrow>
   getRunDataset_try R runId w = (Inl e, w1)"
  by (simp add: getRunDataset_try_def)


text \<open>The server's loop does the same with its own \<^verbatim>\<open>try\<close> block.\<close>

lemma pollRun_dataset_failure_swallowed:
  assumes "\<not> now w - startTime > server_maxWaitTime"
    and "request R (run_endpoint runId) w = (rp, w1)" and "server_fetch rp = Inr r"
    and "get_prop r ''status'' = Inr (Some (JStr ''SUCCEEDED''))"
    and "pollRun_dataset_try R r w1 = (Inl e, w2)"
  shows "pollRun R runId startTime w =
           (Inr \<lparr> out_status = Some (JStr ''SUCCEEDED''),
                  out_finishedAt = opt_prop r ''finishedAt'',
                  out_stats = opt_prop r ''stats'',
                  out_dataset = JArr [],
                  out_run = r \<rparr>, w2)"
  by (rule pollRun_succeeded [OF assms(1-4)]) (simp add: pollRun_dataset_def assms(5))


lemma makeRequest_items_reply: "makeRequest items_reply = Inr (JArr [JObj [(''title'', JStr ''x'')]])"
  by (simp add: makeRequest_def items_reply_def ok_def parse_body_def)

lemma waitForRun_allocated_late:
  "fst (waitForRun allocated_late ''run_1'' 300000 (boot 0)) =
     Inr \<lparr> out_status = Some (JStr ''SUCCEEDED''),
           out_finishedAt = Some (JStr ''2025-01-01T00:00:00.000Z''),
           out_stats = None,
           out_dataset = JArr [JObj [(''title'', JStr ''x'')]],
           out_run = Some (JObj unallocated_fields) \<rparr>"
proof -
  let ?ep = "run_endpoint ''run_1''"
  let ?ds = "''/datasets/'' @ ''ds_1'' @ ''/items?format=json''"
  let ?a1 = "snd (request allocated_late ?ep (boot 0))"
  let ?a2 = "snd (request allocated_late ?ep ?a1)"
  let ?a3 = "snd (request allocated_late ?ds ?a2)"
  have rep: "get_reply allocated_late ?ep k
      = (if k = 0 then run_reply unallocated_fields else run_reply succeeded_fields)" for k
    by (simp add: allocated_late_def)
  have a1: "now (boot 0) - now (boot 0) < (300000::int)"
    by simp
  have a2: "getRun allocated_late ''run_1'' (boot 0) = (Inr (Some (JObj unallocated_fields)), ?a1)"
    by (rule getRun_run_reply) (simp add: rep asked_boot)
  have a3: "get_prop (Some (JObj unallocated_fields)) ''status'' = Inr (Some (JStr ''SUCCEEDED''))"
    by (simp add: unallocated_fields_def)
  have asked1: "asked ?a1 ?ep = 1"
    by (simp add: request_def boot_def)
  have again: "getRun allocated_late ''run_1'' ?a1 = (Inr (Some (JObj succeeded_fields)), ?a2)"
    by (rule getRun_run_reply) (simp add: rep asked1)
  have dsid: "get_prop (Some (JObj succeeded_fields)) ''defaultDatasetId'' = Inr (Some (JStr ''ds_1''))"
    by (simp add: succeeded_fields_def)
  have rq: "request allocated_late ?ds ?a2 = (items_reply, ?a3)"
    by (simp add: request_def allocated_late_def run_endpoint_def)
  have "getRunDataset_try allocated_late ''run_1'' ?a1 = (makeRequest items_reply, ?a3)"
    by (rule getRunDataset_try_items [OF again dsid _ dataset_endpoint_string rq]) simp
  then have "getRunDataset allocated_late ''run_1'' ?a1 = (JArr [JObj [(''title'', JStr ''x'')]], ?a3)"
    by (simp add: getRunDataset_def makeRequest_items_reply)
  from waitForRun_loop_succeeded [OF a1 a2 a3 this]
  show ?thesis
    by (simp add: waitForRun_def unallocated_fields_def)
qed

text \<open>
  Claim C5, as stated, fails on the client, which reads the dataset id off a second
  fetch of the run and not off the record it observed. With every request answered:
  the observed record has no \<^verbatim>\<open>defaultDatasetId\<close> and yet the outcome's dataset is
  \<^verbatim>\<open>[{"title": "x"}]\<close>, because the second record has one; and a \<^verbatim>\<open>defaultDatasetId\<close> that
  is present but is the empty string gives the empty dataset, although the endpoint for
  that id returns items.
\<close>

theorem C5_second_record_counterexample:
  "fst (waitForRun allocated_late ''run_1'' 300000 (boot 0)) =
     Inr \<lparr> out_status = Some (JStr ''SUCCEEDED''),
           out_finishedAt = Some (JStr ''2025-01-01T00:00:00.000Z''),
           out_stats = None,
           out_dataset = JArr [JObj [(''title'', JStr ''x'')]],
           out_run = Some (JObj unallocated_fields) \<rparr>
   \<and> opt_prop (Some (JObj unallocated_fields)) ''defaultDatasetId'' = None
   \<and> fst (waitForRun empty_id ''run_1'' 300000 (boot 0)) =
     Inr \<lparr> out_status = Some (JStr ''SUCCEEDED''),
           out_finishedAt = Some (JStr ''2025-01-01T00:00:00.000Z''),
           out_stats = None,
           out_dataset = JArr [],
           out_run = Some (JObj empty_id_fields) \<rparr>
   \<and> opt_prop (Some (JObj empty_id_fields)) ''defaultDatasetId'' = Some (JStr [])
   \<and> makeRequest (get_reply empty_id (''/datasets/'' @ [] @ ''/items?format=json'') 0)
       = Inr (JArr [JObj [(''title'', JStr ''x'')]])"
proof -
  let ?ep = "run_endpoint ''run_1''"
  have a1: "now (boot 0) - now (boot 0) < (300000::int)"
    by simp
  note late = waitForRun_allocated_late
  let ?e1 = "snd (request empty_id ?ep (boot 0))"
  let ?e2 = "snd (request empty_id ?ep ?e1)"
  have rep': "get_reply empty_id ?ep k = run_reply empty_id_fields" for k
    by (simp add: empty_id_def)
  have e2: "getRun empty_id ''run_1'' (boot 0) = (Inr (Some (JObj empty_id_fields)), ?e1)"
    by (rule getRun_run_reply) (rule rep')
  have e3: "get_prop (Some (JObj empty_id_fields)) ''status'' = Inr (Some (JStr ''SUCCEEDED''))"
    by (simp add: empty_id_fields_def)
  have again': "getRun empty_id ''run_1'' ?e1 = (Inr (Some (JObj empty_id_fields)), ?e2)"
    by (rule getRun_run_reply) (rule rep')
  have dsid': "get_prop (Some (JObj empty_id_fields)) ''defaultDatasetId'' = Inr (Some (JStr []))"
    by (simp add: empty_id_fields_def)
  have "getRunDataset_try empty_id ''run_1'' ?e1 = (Inr (JArr []), ?e2)"
    by (rule getRunDataset_try_no_id [OF again' dsid']) simp
  then have "getRunDataset empty_id ''run_1'' ?e1 = (JArr [], ?e2)"
    by (rule getRunDataset_returns)
  from waitForRun_loop_succeeded [OF a1 e2 e3 this]
  have empty: "fst (waitForRun empty_id ''run_1'' 300000 (boot 0)) =
     Inr \<lparr> out_status = Some (JStr ''SUCCEEDED''),
           out_finishedAt = Some (JStr ''2025-01-01T00:00:00.000Z''),
           out_stats = None,
           out_dataset = JArr [],
           out_run = Some (JObj empty_id_fields) \<rparr>"
    by (simp add: waitForRun_def empty_id_fields_def)
  have "get_reply empty_id (''/datasets/'' @ [] @ ''/items?format=json'') 0 = items_reply"
    by (simp add: empty_id_def run_endpoint_def)
  with late empty show ?thesis
    by (simp add: makeRequest_items_reply unallocated_fields_def empty_id_fields_def)
qed

text \<open>
  Claim C5, amended. For a run observed as \<^verbatim>\<open>SUCCEEDED\<close> within the budget, the client
  fetches the run record a second time. When that second fetch returns a record, the
  loop returns the outcome built from the observed record, and its dataset is decided
  by the second record's \<^verbatim>\<open>defaultDatasetId\<close>: when that id is truthy (a non-empty string,
  say) and the dataset-items request for its text succeeds, the dataset is exactly what
  that request returns; when the id is absent, empty or otherwise falsy, the dataset is
  the empty array, without error and without a dataset request; and the dataset is the
  empty array too when the conversion of the id to text throws or the dataset-items
  request fails.
\<close>

theorem C5_dataset_of_second_record:
  assumes "now w - startTime < maxWaitTime"
    and "getRun R runId w = (Inr r, w1)"
    and "get_prop r ''status'' = Inr (Some (JStr ''SUCCEEDED''))"
    and "getRun R runId w1 = (Inr r2, w2)"
  shows "\<exists>ds w3. waitForRun_loop R runId maxWaitTime startTime w = (Inr (outcome_of r ds), w3)
       \<and> (\<forall>s items. truthy (opt_prop r2 ''defaultDatasetId'')
              \<and> js_string (opt_prop r2 ''defaultDatasetId'') = Inr s
              \<and> makeRequest (fst (request R (''/datasets/'' @ s @ ''/items?format=json'') w2))
                  = Inr items
            \<longrightarrow> ds = items \<and> w3 = snd (request R (''/datasets/'' @ s @ ''/items?format=json'') w2))
       \<and> (\<forall>s e. truthy (opt_prop r2 ''defaultDatasetId'')
              \<and> js_string (opt_prop r2 ''defaultDatasetId'') = Inr s
              \<and> makeRequest (fst (request R (''/datasets/'' @ s @ ''/items?format=json'') w2))
                  = Inl e
            \<longrightarrow> ds = JArr [])
       \<and> (truthy (opt_prop r2 ''defaultDatasetId'')
              \<and> (\<forall>s. js_string (opt_prop r2 ''defaultDatasetId'') \<noteq> Inr s)
            \<longrightarrow> ds = JArr [] \<and> w3 = w2)
       \<and> (\<not> truthy (opt_prop r2 ''defaultDatasetId'') \<longrightarrow> ds = JArr [] \<and> w3 = w2)"
proof -
  obtain ds w3 where ds: "getRunDataset R runId w1 = (ds, w3)"
    by (cases "getRunDataset R runId w1") blast
  let ?id = "opt_prop r2 ''defaultDatasetId''"
  have falsy: "ds = JArr [] \<and> w3 = w2" if "\<not> truthy ?id"
  proof (cases "get_prop r2 ''defaultDatasetId''")
    case (Inl e)
    from getRunDataset_swallows [OF getRunDataset_try_no_record [OF assms(4) Inl]] ds
    show ?thesis by simp
  next
    case (Inr d)
    with that have "\<not> truthy d" by (simp add: get_prop_opt)
    from getRunDataset_returns [OF getRunDataset_try_no_id [OF assms(4) Inr this]] ds
    show ?thesis by simp
  qed
  have id: "get_prop r2 ''defaultDatasetId'' = Inr ?id" if "truthy ?id"
  proof (cases "get_prop r2 ''defaultDatasetId''")
    case (Inl e)
    with that show ?thesis by (simp add: get_prop_throws)
  next
    case (Inr d)
    then show ?thesis by (simp add: get_prop_opt)
  qed
  have throws: "ds = JArr [] \<and> w3 = w2"
    if t: "truthy ?id" and n: "\<forall>s. js_string ?id \<noteq> Inr s"
    using getRunDataset_swallows [OF getRunDataset_try_conversion_fails
        [OF assms(4) id [OF t] t dataset_endpoint_throws [OF n]]] ds
    by simp
  have sent: "getRunDataset_try R runId w1
      = (makeRequest (fst (request R (''/datasets/'' @ s @ ''/items?format=json'') w2)),
         snd (request R (''/datasets/'' @ s @ ''/items?format=json'') w2))"
    if t: "truthy ?id" and s: "js_string ?id = Inr s" for s
    by (rule getRunDataset_try_items [OF assms(4) id [OF t] t dataset_endpoint_text [OF s]]) simp
  have items: "ds = items \<and> w3 = snd (request R (''/datasets/'' @ s @ ''/items?format=json'') w2)"
    if "truthy ?id" and "js_string ?id = Inr s"
      and "makeRequest (fst (request R (''/datasets/'' @ s @ ''/items?format=json'') w2)) = Inr items"
    for s items
    using sent [OF that(1,2)] that(3) ds by (simp add: getRunDataset_def)
  have fails: "ds = JArr []"
    if "truthy ?id" and "js_string ?id = Inr s"
      and "makeRequest (fst (request R (''/datasets/'' @ s @ ''/items?format=json'') w2)) = Inl e"
    for s e
    using sent [OF that(1,2)] that(3) ds by (simp add: getRunDataset_def)
  have "waitForRun_loop R runId maxWaitTime startTime w = (Inr (outcome_of r ds), w3)"
    unfolding outcome_of_def by (rule waitForRun_loop_succeeded [OF assms(1-3) ds])
  with falsy throws items fails show ?thesis by blast
qed

theorem C5_dataset_of_second_record_witness:
  "fst (waitForRun scenario_A ''run_1'' 300000 (boot 0)) =
     Inr \<lparr> out_status = Some (JStr ''SUCCEEDED''),
           out_finishedAt = Some (JStr ''2025-01-01T00:00:00.000Z''),
           out_stats = None,
           out_dataset = JArr [JObj [(''title'', JStr ''x'')]],
           out_run = Some (JObj succeeded_fields) \<rparr>"
proof -
  let ?ep = "run_endpoint ''run_1''"
  let ?running = "[(''id'', JStr ''run_1''), (''status'', JStr ''RUNNING'')]"
  let ?w1 = "snd (request scenario_A ?ep (boot 0))"
  let ?w = "sleep scenario_A pollInterval ?w1"
  let ?w2 = "snd (request scenario_A ?ep ?w)"
  let ?w3 = "snd (request scenario_A ?ep ?w2)"
  let ?ds = "''/datasets/'' @ ''ds_1'' @ ''/items?format=json''"
  have first: "getRun scenario_A ''run_1'' (boot 0) = (Inr (Some (JObj ?running)), ?w1)"
    by (rule getRun_run_reply) (simp add: scenario_A_def asked_boot)
  have pend: "waitForRun_loop scenario_A ''run_1'' 300000 0 (boot 0)
      = waitForRun_loop scenario_A ''run_1'' 300000 0 ?w"
  proof (rule waitForRun_loop_pending [OF _ first])
    show "now (boot 0) - 0 < (300000::int)" by (simp add: now_boot)
    show "get_prop (Some (JObj ?running)) ''status'' = Inr (Some (JStr ''RUNNING''))" by simp
    show "pending (Some (JStr ''RUNNING''))" by (simp add: pending_def)
  qed
  have rep: "get_reply scenario_A ?ep k
      = (if k = 0 then run_reply ?running else run_reply succeeded_fields)" for k
    by (simp add: scenario_A_def)
  have asked_w: "asked ?w ?ep = 1"
    by (simp add: sleep_def request_def boot_def)
  have asked_w2: "asked ?w2 ?ep = 2"
    by (simp add: sleep_def request_def boot_def)
  have 1: "now ?w - 0 < (300000::int)"
    by (simp add: sleep_def request_def boot_def scenario_A_def pollInterval_def)
  have 2: "getRun scenario_A ''run_1'' ?w = (Inr (Some (JObj succeeded_fields)), ?w2)"
    by (rule getRun_run_reply) (simp add: rep asked_w)
  have 3: "get_prop (Some (JObj succeeded_fields)) ''status'' = Inr (Some (JStr ''SUCCEEDED''))"
    by (simp add: succeeded_fields_def)
  have 4: "getRun scenario_A ''run_1'' ?w2 = (Inr (Some (JObj succeeded_fields)), ?w3)"
    by (rule getRun_run_reply) (simp add: rep asked_w2)
  have dsid: "opt_prop (Some (JObj succeeded_fields)) ''defaultDatasetId'' = Some (JStr ''ds_1'')"
    by (simp add: succeeded_fields_def)
  have items: "makeRequest (fst (request scenario_A ?ds ?w3))
      = Inr (JArr [JObj [(''title'', JStr ''x'')]])"
    by (simp add: request_def scenario_A_def run_endpoint_def makeRequest_items_reply)
  from C5_dataset_of_second_record [OF 1 2 3 4] obtain ds w4 where
    o: "waitForRun_loop scenario_A ''run_1'' 300000 0 ?w
          = (Inr (outcome_of (Some (JObj succeeded_fields)) ds), w4)"
    and d: "\<forall>s items. truthy (opt_prop (Some (JObj succeeded_fields)) ''defaultDatasetId'')
              \<and> js_string (opt_prop (Some (JObj succeeded_fields)) ''defaultDatasetId'') = Inr s
              \<and> makeRequest (fst (request scenario_A (''/datasets/'' @ s @ ''/items?format=json'') ?w3))
                  = Inr items
            \<longrightarrow> ds = items
              \<and> w4 = snd (request scenario_A (''/datasets/'' @ s @ ''/items?format=json'') ?w3)"
    by blast
  have "truthy (opt_prop (Some (JObj succeeded_fields)) ''defaultDatasetId'')
      \<and> js_string (opt_prop (Some (JObj succeeded_fields)) ''defaultDatasetId'') = Inr ''ds_1''"
    unfolding dsid by simp
  with d items have "ds = JArr [JObj [(''title'', JStr ''x'')]]"
    by blast
  with pend o show ?thesis
    by (simp add: waitForRun_def now_boot outcome_of_def succeeded_fields_def)
qed

section \<open>The two loops side by side\<close>









subsection \<open>Any number of pending polls, on the server\<close>




subsection \<open>What the two loops return\<close>





subsection \<open>Where the two loops part\<close>











end
